theory Spec2Isabelle
  imports Complex_Main
begin

section \<open>The find-video edge function: video discovery and ranking\<close>

text \<open>
  A shallow embedding of the edge function that, given a learning topic, asks a
  generative service for a plan (sub-topics and a main search query), searches the
  video provider for the main query and for each sub-topic, scores every candidate
  and assembles the response.

  Conventions of the embedding.
  \<^item> A JavaScript number is a rational (\<^typ>\<open>rat\<close>), an integral one an
    \<^typ>\<open>int\<close>. An arithmetic operation on numbers is the exact operation followed by
    the rounding of its result to binary64 (\<open>binary64\<close>). \<open>NaN\<close>, the infinities,
    overflow and subnormal numbers are outside the model, so the counts and the date of
    a detail item enter the model already decoded, as integers.
  \<^item> A thrown \<open>Error\<close> is a value of the type \<open>exn\<close>, and a function that may
    throw returns a sum (\<open>Inl\<close> the error).
  \<^item> The replies of the two remote services, the clock and the configured keys are
    inputs of the model (the record \<open>world\<close>); logging is left out.
\<close>

subsection \<open>Numbers and their renderings\<close>

text \<open>\<open>Math.round\<close>: the nearest integer, a tie going up.\<close>

definition Math_round :: "rat \<Rightarrow> int" where
  "Math_round x = \<lfloor>x + 1 / 2\<rfloor>"

definition digit :: "nat \<Rightarrow> char" where
  "digit d = ''0123456789'' ! d"

text \<open>The decimal digits of a natural number, most significant first.\<close>

fun digits :: "nat \<Rightarrow> string" where
  "digits n = (if n < 10 then [digit n] else digits (n div 10) @ [digit (n mod 10)])"

declare digits.simps [simp del]

text \<open>\<open>Number.prototype.toString\<close> on an integral number.\<close>

definition toString :: "int \<Rightarrow> string" where
  "toString k = (if k < 0 then CHR ''-'' # digits (nat (- k)) else digits (nat k))"

text \<open>
  \<open>Number.prototype.toFixed(1)\<close>: the sign, then the integer \<open>n\<close> for which \<open>n / 10\<close>
  is nearest to the magnitude (the larger \<open>n\<close> of two equally near ones), written with
  a point before its last digit. (Magnitudes from \<open>1e21\<close> on, which print in exponent
  notation, are not modelled.)
\<close>

definition toFixed1 :: "rat \<Rightarrow> string" where
  "toFixed1 x =
     (let n = nat \<lfloor>\<bar>x\<bar> * 10 + 1 / 2\<rfloor>
      in (if x < 0 then ''-'' else '''') @ digits (n div 10) @ ''.'' @ [digit (n mod 10)])"

text \<open>
  The binary64 number nearest to a rational, a tie going to the even significand:
  the result of a JavaScript division whose exact quotient is \<open>x\<close>. \<open>binade n\<close> is
  \<open>\<lfloor>log\<^sub>2 n\<rfloor>\<close> for a positive \<open>n\<close>, \<open>exponent x\<close> is \<open>\<lfloor>log\<^sub>2 x\<rfloor>\<close> for a
  positive \<open>x\<close>, and the significand has 53 bits. Overflow and subnormal numbers are
  not modelled.
\<close>

definition roundHalfEven :: "rat \<Rightarrow> int" where
  "roundHalfEven y =
     (let f = \<lfloor>y\<rfloor>; r = y - of_int f
      in if r < 1 / 2 then f else if 1 / 2 < r then f + 1 else if even f then f else f + 1)"

fun binade :: "nat \<Rightarrow> nat" where
  "binade n = (if n < 2 then 0 else Suc (binade (n div 2)))"

declare binade.simps [simp del]

definition exponent :: "rat \<Rightarrow> int" where
  "exponent x =
     (if 1 \<le> x then int (binade (nat \<lfloor>x\<rfloor>))
      else - int (Suc (binade (nat \<lceil>1 / x\<rceil> - 1))))"

definition binary64 :: "rat \<Rightarrow> rat" where
  "binary64 x =
     (if x = 0 then 0
      else let u = 2 powi (exponent \<bar>x\<bar> - 52)
           in sgn x * of_int (roundHalfEven (\<bar>x\<bar> / u)) * u)"

text \<open>
  \<open>formatViewCount\<close>. The quotient is the binary64 one: where the exact quotient is
  half-way between two tenths, the digit printed depends on the side to which the
  division was rounded (\<open>1150 / 1000\<close> is below 1.15 in binary64 and prints as 1.1).
\<close>

definition formatViewCount :: "int \<Rightarrow> string" where
  "formatViewCount count =
     (if count \<ge> 1000000 then toFixed1 (binary64 (of_int count / 1000000)) @ ''M''
      else if count \<ge> 1000 then toFixed1 (binary64 (of_int count / 1000)) @ ''K''
      else toString count)"

subsection \<open>Candidates and their engagement score\<close>

text \<open>
  One item of the provider's detail reply, with the fields the scoring reads:
  \<open>statistics_viewCount\<close> and \<open>statistics_likeCount\<close> are the values of
  \<open>parseInt(item.statistics?.viewCount || '0')\<close> and of the like count (0 when the
  field is absent), \<open>snippet_publishTime\<close> is \<open>new Date(item.snippet.publishedAt).getTime()\<close>
  in milliseconds.
\<close>

record item =
  item_id :: string
  snippet_title :: string
  snippet_channelTitle :: string
  snippet_publishedAt :: string
  snippet_publishTime :: int
  contentDetails_duration :: string
  statistics_viewCount :: int
  statistics_likeCount :: int

record YouTubeVideo =
  videoId :: string
  title :: string
  channel :: string
  viewCount :: string
  publishedAt :: string
  duration :: string
  engagementScore :: rat

text \<open>
  The callback that \<open>searchYouTube\<close> maps over the detail items; \<open>now\<close> is the value
  of \<open>Date.now()\<close>. Every subtraction, division, multiplication and addition of the
  source is followed by its rounding; \<open>Math.round\<close>, \<open>Math.max\<close> and \<open>Math.min\<close>
  are exact.
\<close>

definition daysSincePublish :: "int \<Rightarrow> item \<Rightarrow> rat" where
  "daysSincePublish now item =
     max 1 (binary64 (binary64 (of_int (now - snippet_publishTime item))
                      / (1000 * 60 * 60 * 24)))"

definition roundedScore :: "int \<Rightarrow> item \<Rightarrow> int" where
  "roundedScore now item =
     Math_round
       (binary64
          (binary64
             (binary64
                (binary64 (of_int (statistics_viewCount item) / daysSincePublish now item)
                 * (1 / 2))
              + binary64 (of_int (statistics_likeCount item) * 10))
           + (if statistics_viewCount item > 100000 then 50 else 0)))"

definition scoreItem :: "int \<Rightarrow> item \<Rightarrow> YouTubeVideo" where
  "scoreItem now item =
     \<lparr> videoId = item_id item,
       title = snippet_title item,
       channel = snippet_channelTitle item,
       viewCount = formatViewCount (statistics_viewCount item),
       publishedAt = snippet_publishedAt item,
       duration = contentDetails_duration item,
       engagementScore =
         min 100 (max 1 (binary64 (of_int (roundedScore now item) / 1000))) \<rparr>"

text \<open>
  \<open>videos.sort((a, b) => b.engagementScore - a.engagementScore)\<close>: a stable sort,
  the higher score first.
\<close>

definition sortByEngagement :: "YouTubeVideo list \<Rightarrow> YouTubeVideo list" where
  "sortByEngagement videos = sort_key (\<lambda>v. - engagementScore v) videos"

subsection \<open>The scoring formula in the specification's words\<close>

text \<open>
  \<open>clamp(round(rawScore / 1000), 1, 100)\<close>, with
  \<open>rawScore = (viewCount / daysSincePublish) * 0.5 + likeCount * 10 + (50 if viewCount > 100000 else 0)\<close>
  and \<open>daysSincePublish = max(1, elapsed days since publishedAt)\<close>, in the arithmetic
  of the program's numbers.
\<close>

definition spec_daysSincePublish :: "int \<Rightarrow> int \<Rightarrow> rat" where
  "spec_daysSincePublish now published =
     max 1 (binary64 (binary64 (of_int (now - published)) / 86400000))"

definition spec_rawScore :: "int \<Rightarrow> int \<Rightarrow> rat \<Rightarrow> rat" where
  "spec_rawScore views likes days =
     binary64
       (binary64 (binary64 (binary64 (of_int views / days) * (1 / 2)) + binary64 (of_int likes * 10))
        + (if views > 100000 then 50 else 0))"

definition clamp :: "rat \<Rightarrow> rat \<Rightarrow> rat \<Rightarrow> rat" where
  "clamp x lo hi = min hi (max lo x)"

definition spec_engagementScore :: "int \<Rightarrow> int \<Rightarrow> rat \<Rightarrow> rat" where
  "spec_engagementScore views likes days =
     clamp (of_int (Math_round (binary64 (spec_rawScore views likes days / 1000)))) 1 100"

subsection \<open>Errors and the replies of the remote services\<close>

datatype exn = Error string

fun message :: "exn \<Rightarrow> string" where
  "message (Error m) = m"

text \<open>
  What awaiting \<open>fetch\<close> and the reply's JSON body gives: the promise rejects with an
  \<open>Error\<close> (\<open>Rejected message\<close>), or there is a reply with its HTTP status and the
  decoded payload. The payload is read only when the status is \<open>ok\<close>.
\<close>

datatype 'a fetched = Rejected string | Reply nat 'a

definition ok :: "nat \<Rightarrow> bool" where
  "ok status = (200 \<le> status \<and> status \<le> 299)"

text \<open>
  The plan the generative service is asked for, a list of subtasks with a title and a
  search query each, and a main search query: every field may be absent (\<open>None\<close>,
  JavaScript's \<open>undefined\<close>). A parsed value of another shape (a field that is not a
  string, a subtask that is not an object) is outside the model.
\<close>

record subtask =
  subtask_title :: "string option"
  subtask_searchQuery :: "string option"

record parsedData =
  plan_subtasks :: "subtask list option"
  plan_mainSearchQuery :: "string option"

text \<open>
  The environment of one request: the clock (one value, the clock does not advance
  during a request), the two endpoints of the video provider (the search by query,
  result cap and key, whose payload is the list of the items' \<open>id.videoId\<close>; the
  detail lookup by comma-joined identifiers and key), the completion endpoint of the
  generative service (by key and topic, whose payload is
  \<open>choices?.[0]?.message?.content\<close>), \<open>JSON.parse\<close> (\<open>None\<close> when it throws) and
  the two configured keys. An endpoint answers equal requests equally.
\<close>

record world =
  Date_now :: int
  fetchSearch :: "string \<Rightarrow> nat \<Rightarrow> string \<Rightarrow> string list fetched"
  fetchDetails :: "string \<Rightarrow> string \<Rightarrow> item list fetched"
  fetchCompletion :: "string \<Rightarrow> string \<Rightarrow> string option fetched"
  JSON_parse :: "string \<Rightarrow> parsedData option"
  env_youtube_api_key :: "string option"
  env_LOVABLE_API_KEY :: "string option"

subsection \<open>searchYouTube\<close>

text \<open>\<open>Array.prototype.join(',')\<close> on a list of strings.\<close>

fun join :: "string list \<Rightarrow> string" where
  "join [] = ''''"
| "join [x] = x"
| "join (x # y # ys) = x @ '','' @ join (y # ys)"

definition searchYouTube :: "world \<Rightarrow> string \<Rightarrow> string \<Rightarrow> nat \<Rightarrow> exn + YouTubeVideo list" where
  "searchYouTube w query apiKey maxResults =
     (case fetchSearch w query maxResults apiKey of
        Rejected m \<Rightarrow> Inl (Error m)
      | Reply searchStatus ids \<Rightarrow>
          if \<not> ok searchStatus then Inl (Error (''YouTube API error: '' @ digits searchStatus))
          else
            let videoIds = join ids in
            if videoIds = '''' then Inr []
            else
              (case fetchDetails w videoIds apiKey of
                 Rejected m \<Rightarrow> Inl (Error m)
               | Reply detailsStatus items \<Rightarrow>
                   if \<not> ok detailsStatus then Inl (Error ''Failed to get video details'')
                   else Inr (sortByEngagement (map (scoreItem (Date_now w)) items))))"

subsection \<open>The plan: parsing the generated text, and the fallback\<close>

text \<open>
  \<open>trim\<close>, \<open>startsWith\<close> and \<open>endsWith\<close> of \<open>String.prototype\<close>. The characters
  of the model are bytes, and the white space that \<open>trim\<close> removes is the ASCII one.
\<close>

definition isSpace :: "char \<Rightarrow> bool" where
  "isSpace c = (c \<in> set [CHR '' '', CHR 0x09, CHR 0x0A, CHR 0x0B, CHR 0x0C, CHR 0x0D])"

definition trim :: "string \<Rightarrow> string" where
  "trim s = rev (dropWhile isSpace (rev (dropWhile isSpace s)))"

definition startsWith :: "string \<Rightarrow> string \<Rightarrow> bool" where
  "startsWith s p = (take (length p) s = p)"

definition endsWith :: "string \<Rightarrow> string \<Rightarrow> bool" where
  "endsWith s p = (length p \<le> length s \<and> drop (length s - length p) s = p)"

text \<open>The code fence: three grave accents.\<close>

definition fence :: string where
  "fence = [CHR 0x60, CHR 0x60, CHR 0x60]"

definition cleanContent :: "string \<Rightarrow> string" where
  "cleanContent content =
     (let c0 = trim content;
          c1 = (if startsWith c0 (fence @ ''json'') then drop 7 c0 else c0);
          c2 = (if startsWith c1 fence then drop 3 c1 else c1);
          c3 = (if endsWith c2 fence then take (length c2 - 3) c2 else c2)
      in trim c3)"

definition fallbackPlan :: "string \<Rightarrow> parsedData" where
  "fallbackPlan topic =
     \<lparr> plan_subtasks = Some
         [ \<lparr> subtask_title = Some (''Introduction to '' @ topic),
             subtask_searchQuery = Some (topic @ '' introduction tutorial'') \<rparr>,
           \<lparr> subtask_title = Some (''Core concepts of '' @ topic),
             subtask_searchQuery = Some (topic @ '' explained for beginners'') \<rparr>,
           \<lparr> subtask_title = Some (''Practice '' @ topic),
             subtask_searchQuery = Some (topic @ '' examples practice'') \<rparr> ],
       plan_mainSearchQuery = Some (topic @ '' tutorial explained'') \<rparr>"

text \<open>
  The inner \<open>try\<close>: \<open>content.trim()\<close> throws when the content is absent,
  \<open>JSON.parse\<close> when the cleaned text is not JSON; the \<open>catch\<close> substitutes the fallback.
\<close>

definition parseContent :: "world \<Rightarrow> string \<Rightarrow> string option \<Rightarrow> parsedData" where
  "parseContent w topic content =
     (case content of
        None \<Rightarrow> fallbackPlan topic
      | Some c \<Rightarrow>
          (case JSON_parse w (cleanContent c) of
             None \<Rightarrow> fallbackPlan topic
           | Some p \<Rightarrow> p))"

subsection \<open>The request handler\<close>

text \<open>
  Truthiness of an optional string: the absent and the empty string are falsy;
  \<open>truthy x\<close> is the string when it is truthy, \<open>orElse x d\<close> is \<open>x || d\<close>.
\<close>

definition truthy :: "string option \<Rightarrow> string option" where
  "truthy x = (case x of None \<Rightarrow> None | Some s \<Rightarrow> if s = '''' then None else Some s)"

definition orElse :: "string option \<Rightarrow> string \<Rightarrow> string" where
  "orElse x d = (case x of None \<Rightarrow> d | Some s \<Rightarrow> if s = '''' then d else s)"

text \<open>An optional string inside a template literal.\<close>

definition template :: "string option \<Rightarrow> string" where
  "template x = (case x of None \<Rightarrow> ''undefined'' | Some s \<Rightarrow> s)"

record rankedVideo =
  rv_videoId :: string
  rv_title :: string
  rv_channel :: string
  rv_views :: string
  rv_engagementScore :: rat
  rv_reason :: string

record subtaskWithVideos =
  swv_title :: string
  swv_description :: string
  swv_videos :: "rankedVideo list"

record discoveryResult =
  res_videoId :: string
  res_title :: string
  res_channel :: string
  res_reason :: string
  res_subtasks :: "subtaskWithVideos list"

datatype responseBody = NoBody | ErrorBody string | ResultBody discoveryResult

record response =
  status :: nat
  body :: responseBody

text \<open>
  The request: its method, and what \<open>await req.json()\<close> with the destructuring of
  \<open>topic\<close> gives (a rejection, or the topic, absent when the body has none).
\<close>

record request =
  req_method :: string
  req_json :: "exn + string option"

text \<open>The inner \<open>videos.map((v, i) => ...)\<close> of a subtask.\<close>

definition rankVideo :: "nat \<times> YouTubeVideo \<Rightarrow> rankedVideo" where
  "rankVideo = (\<lambda>(i, v).
     \<lparr> rv_videoId = videoId v,
       rv_title = title v,
       rv_channel = channel v,
       rv_views = viewCount v,
       rv_engagementScore = engagementScore v,
       rv_reason = (if i = 0 then ''Highest engagement for this topic''
                    else ''Recommended video #'' @ digits (i + 1)) \<rparr>)"

text \<open>
  The callback mapped over the first five subtasks of the plan, with its own
  \<open>try\<close>/\<open>catch\<close>; \<open>Promise.all\<close> keeps the results at the index of their subtask.
\<close>

definition subtaskQuery :: "string \<Rightarrow> subtask \<Rightarrow> string" where
  "subtaskQuery topic st =
     orElse (subtask_searchQuery st) (topic @ '' '' @ template (subtask_title st))"

definition searchSubtask :: "world \<Rightarrow> string \<Rightarrow> string \<Rightarrow> nat \<times> subtask \<Rightarrow> subtaskWithVideos" where
  "searchSubtask w topic apiKey = (\<lambda>(idx, st).
     (case searchYouTube w (subtaskQuery topic st) apiKey 5 of
        Inr videos \<Rightarrow>
          \<lparr> swv_title = orElse (subtask_title st) (''Part '' @ digits (idx + 1)),
            swv_description = orElse (subtask_searchQuery st) '''',
            swv_videos = map rankVideo (enumerate 0 videos) \<rparr>
      | Inl err \<Rightarrow>
          \<lparr> swv_title = orElse (subtask_title st) (''Part '' @ digits (idx + 1)),
            swv_description = orElse (subtask_searchQuery st) '''',
            swv_videos = [] \<rparr>))"

text \<open>\<open>(parsedData.subtasks || []).slice(0, 5)\<close>.\<close>

definition planSubtasks :: "parsedData \<Rightarrow> subtask list" where
  "planSubtasks p = take 5 (case plan_subtasks p of None \<Rightarrow> [] | Some ss \<Rightarrow> ss)"

definition mainQuery :: "string \<Rightarrow> parsedData \<Rightarrow> string" where
  "mainQuery topic p = orElse (plan_mainSearchQuery p) (topic @ '' tutorial'')"

text \<open>
  The body of the outer \<open>try\<close>, in its two stages. A stage throws, returns a response,
  or continues with what the next stage needs.
\<close>

datatype 'a step = Throw exn | Return response | Continue 'a

text \<open>
  First stage: the topic, the keys and the plan. It continues with the topic, the
  provider's key and the plan.
\<close>

definition planTopic :: "world \<Rightarrow> request \<Rightarrow> (string \<times> string \<times> parsedData) step" where
  "planTopic w req =
     (case req_json req of
        Inl err \<Rightarrow> Throw err
      | Inr topicField \<Rightarrow>
          (case truthy topicField of
             None \<Rightarrow> Return \<lparr> status = 400, body = ErrorBody ''Topic is required'' \<rparr>
           | Some topic \<Rightarrow>
               (case truthy (env_youtube_api_key w) of
                  None \<Rightarrow> Throw (Error ''YouTube API key is not configured'')
                | Some YOUTUBE_API_KEY \<Rightarrow>
                    (case truthy (env_LOVABLE_API_KEY w) of
                       None \<Rightarrow> Throw (Error ''LOVABLE_API_KEY is not configured'')
                     | Some LOVABLE_API_KEY \<Rightarrow>
                         (case fetchCompletion w LOVABLE_API_KEY topic of
                            Rejected m \<Rightarrow> Throw (Error m)
                          | Reply aiStatus content \<Rightarrow>
                              if \<not> ok aiStatus then
                                (if aiStatus = 429 then
                                   Return \<lparr> status = 429, body = ErrorBody
                                     ''Rate limit exceeded. Please try again later.'' \<rparr>
                                 else if aiStatus = 402 then
                                   Return \<lparr> status = 402, body = ErrorBody
                                     ''Payment required. Please add credits.'' \<rparr>
                                 else Throw (Error ''AI gateway error''))
                              else
                                Continue (topic, YOUTUBE_API_KEY,
                                          parseContent w topic content))))))"

text \<open>Second stage: from the main search to the success response.\<close>

definition assemble :: "world \<Rightarrow> string \<Rightarrow> string \<Rightarrow> parsedData \<Rightarrow> exn + response" where
  "assemble w topic apiKey p =
     (case searchYouTube w (mainQuery topic p) apiKey 5 of
        Inl err \<Rightarrow> Inl err
      | Inr mainVideos \<Rightarrow>
          (case mainVideos of
             [] \<Rightarrow> Inl (Error ''No videos found for this topic'')
           | primaryVideo # _ \<Rightarrow>
               Inr
                 \<lparr> status = 200,
                   body = ResultBody
                     \<lparr> res_videoId = videoId primaryVideo,
                       res_title = title primaryVideo,
                       res_channel = channel primaryVideo,
                       res_reason = ''Best educational video for '' @ [CHR 0x22] @ topic
                         @ [CHR 0x22] @ '' with '' @ viewCount primaryVideo @ '' views'',
                       res_subtasks =
                         map (searchSubtask w topic apiKey)
                             (enumerate 0 (planSubtasks p)) \<rparr> \<rparr>))"

text \<open>
  The outer \<open>catch\<close>: every thrown error becomes a 500 with its message. (Everything
  thrown inside the \<open>try\<close> is an \<open>Error\<close>, so the message \<open>Unknown error\<close> of the
  source does not arise.)
\<close>

definition caught :: "exn \<Rightarrow> response" where
  "caught err = \<lparr> status = 500, body = ErrorBody (message err) \<rparr>"

text \<open>
  The handler given to \<open>serve\<close>: the preflight, then the two stages inside the outer
  \<open>try\<close>. The headers of the responses are left out.
\<close>

definition handler :: "world \<Rightarrow> request \<Rightarrow> response" where
  "handler w req =
     (if req_method req = ''OPTIONS'' then \<lparr> status = 200, body = NoBody \<rparr>
      else
        (case planTopic w req of
           Throw err \<Rightarrow> caught err
         | Return resp \<Rightarrow> resp
         | Continue (topic, apiKey, p) \<Rightarrow>
             (case assemble w topic apiKey p of
                Inl err \<Rightarrow> caught err
              | Inr resp \<Rightarrow> resp)))"

subsection \<open>Concrete inputs\<close>

text \<open>
  A candidate with no views and 150 likes, published at the time of the request: its
  raw score is 1500, and no operation of its scoring rounds.
\<close>

definition likedItem :: item where
  "likedItem =
     \<lparr> item_id = ''liked'', snippet_title = ''Lines and slopes'',
       snippet_channelTitle = ''Blackboard'', snippet_publishedAt = ''1970-01-01T00:00:00Z'',
       snippet_publishTime = 0, contentDetails_duration = ''PT9M'',
       statistics_viewCount = 0, statistics_likeCount = 150 \<rparr>"

text \<open>
  Two detail items, published ten and five days before the request of the world below,
  and the videos that the scoring makes of them: the rounded raw scores are 69875 and
  7750.
\<close>

definition algebraItem :: item where
  "algebraItem =
     \<lparr> item_id = ''alg1'', snippet_title = ''Algebra in one hour'',
       snippet_channelTitle = ''Blackboard'', snippet_publishedAt = ''1970-01-01T00:00:00Z'',
       snippet_publishTime = 0, contentDetails_duration = ''PT58M'',
       statistics_viewCount = 1234500, statistics_likeCount = 810 \<rparr>"

definition quietItem :: item where
  "quietItem =
     \<lparr> item_id = ''alg2'', snippet_title = ''Solving for x'',
       snippet_channelTitle = ''Chalk'', snippet_publishedAt = ''1970-01-06T00:00:00Z'',
       snippet_publishTime = 432000000, contentDetails_duration = ''PT12M'',
       statistics_viewCount = 45300, statistics_likeCount = 322 \<rparr>"

definition algebraVideo :: YouTubeVideo where
  "algebraVideo =
     \<lparr> videoId = ''alg1'', title = ''Algebra in one hour'', channel = ''Blackboard'',
       viewCount = ''1.2M'', publishedAt = ''1970-01-01T00:00:00Z'', duration = ''PT58M'',
       engagementScore = 559 / 8 \<rparr>"

definition quietVideo :: YouTubeVideo where
  "quietVideo =
     \<lparr> videoId = ''alg2'', title = ''Solving for x'', channel = ''Chalk'',
       viewCount = ''45.3K'', publishedAt = ''1970-01-06T00:00:00Z'', duration = ''PT12M'',
       engagementScore = 31 / 4 \<rparr>"

text \<open>The JSON text of a plan with an empty list of subtasks and nothing else.\<close>

definition emptySubtasksText :: string where
  "emptySubtasksText = ''{'' @ [CHR 0x22] @ ''subtasks'' @ [CHR 0x22] @ '':[]}''"

text \<open>
  A world. The generative service answers the topic \<open>algebra\<close> with prose, \<open>sets\<close>
  with the empty plan above, \<open>knots\<close> with no content, \<open>busy\<close> with status 429,
  \<open>unpaid\<close> with 402, \<open>outage\<close> with 503, and fails to answer any other topic. The
  provider finds the two items for the main query of the fallback plan of \<open>algebra\<close>,
  for its first subtask and for the main query of \<open>sets\<close>, refuses the second subtask
  of \<open>algebra\<close> with status 403, and finds nothing for any other query.
\<close>

definition classroom :: world where
  "classroom =
     \<lparr> Date_now = 864000000,
       fetchSearch = (\<lambda>query maxResults key.
          if query = ''algebra tutorial explained'' \<or> query = ''algebra introduction tutorial''
             \<or> query = ''sets tutorial''
          then Reply 200 [''alg2'', ''alg1'']
          else if query = ''algebra explained for beginners'' then Reply 403 []
          else Reply 200 []),
       fetchDetails = (\<lambda>ids key.
          if ids = ''alg2,alg1'' then Reply 200 [quietItem, algebraItem] else Reply 404 []),
       fetchCompletion = (\<lambda>key topic.
          if topic = ''algebra'' then Reply 200 (Some ''Sure! Here is your plan.'')
          else if topic = ''sets'' then Reply 200 (Some emptySubtasksText)
          else if topic = ''knots'' then Reply 200 None
          else if topic = ''busy'' then Reply 429 None
          else if topic = ''unpaid'' then Reply 402 None
          else if topic = ''outage'' then Reply 503 None
          else Rejected ''error sending request''),
       JSON_parse = (\<lambda>text.
          if text = emptySubtasksText
          then Some \<lparr> plan_subtasks = Some [], plan_mainSearchQuery = None \<rparr>
          else None),
       env_youtube_api_key = Some ''yt-key'',
       env_LOVABLE_API_KEY = Some ''ai-key'' \<rparr>"

text \<open>A \<open>POST\<close> request whose body is \<open>{ topic }\<close>.\<close>

definition post :: "string \<Rightarrow> request" where
  "post topic = \<lparr> req_method = ''POST'', req_json = Inr (Some topic) \<rparr>"

text \<open>The result of the request for \<open>algebra\<close> in that world.\<close>

definition algebraResult :: discoveryResult where
  "algebraResult =
     \<lparr> res_videoId = ''alg1'', res_title = ''Algebra in one hour'', res_channel = ''Blackboard'',
       res_reason = ''Best educational video for '' @ [CHR 0x22] @ ''algebra'' @ [CHR 0x22]
         @ '' with 1.2M views'',
       res_subtasks =
         [ \<lparr> swv_title = ''Introduction to algebra'',
             swv_description = ''algebra introduction tutorial'',
             swv_videos =
               [ \<lparr> rv_videoId = ''alg1'', rv_title = ''Algebra in one hour'',
                   rv_channel = ''Blackboard'', rv_views = ''1.2M'',
                   rv_engagementScore = 559 / 8,
                   rv_reason = ''Highest engagement for this topic'' \<rparr>,
                 \<lparr> rv_videoId = ''alg2'', rv_title = ''Solving for x'',
                   rv_channel = ''Chalk'', rv_views = ''45.3K'',
                   rv_engagementScore = 31 / 4,
                   rv_reason = ''Recommended video #2'' \<rparr> ] \<rparr>,
           \<lparr> swv_title = ''Core concepts of algebra'',
             swv_description = ''algebra explained for beginners'',
             swv_videos = [] \<rparr>,
           \<lparr> swv_title = ''Practice algebra'',
             swv_description = ''algebra examples practice'',
             swv_videos = [] \<rparr> ] \<rparr>"

section \<open>Properties\<close>

subsection \<open>Rounding to binary64\<close>

lemma floor_rat_numeral_div [simp]:
  "\<lfloor>numeral a / numeral b :: rat\<rfloor> = numeral a div numeral b"
  by (metis floor_divide_of_int_eq of_int_numeral)

lemma binade_bounds: "1 \<le> n \<Longrightarrow> 2 ^ binade n \<le> n \<and> n < 2 ^ Suc (binade n)"
proof (induction n rule: binade.induct)
  case (1 n)
  show ?case
  proof (cases "n < 2")
    case True
    with "1.prems" have "n = 1" by simp
    then show ?thesis by (simp add: binade.simps)
  next
    case False
    then have h: "1 \<le> n div 2" by simp
    from "1.IH" [OF False h] have lo: "2 ^ binade (n div 2) \<le> n div 2"
      and hi: "n div 2 < 2 ^ Suc (binade (n div 2))" by simp_all
    have b: "binade n = Suc (binade (n div 2))" using False by (simp add: binade.simps)
    have "2 * 2 ^ binade (n div 2) \<le> n" using lo by simp
    moreover have "n < 2 * 2 ^ Suc (binade (n div 2))" using hi by simp
    ultimately show ?thesis unfolding b by simp
  qed
qed

lemma exponent_bounds:
  assumes "1 \<le> x"
  shows "0 \<le> exponent x"
    and "2 ^ nat (exponent x) \<le> x"
    and "x < 2 ^ Suc (nat (exponent x))"
proof -
  let ?n = "nat \<lfloor>x\<rfloor>"
  have e: "exponent x = int (binade ?n)" using assms by (simp add: exponent_def)
  show "0 \<le> exponent x" by (simp add: e)
  have fl1: "1 \<le> \<lfloor>x\<rfloor>" using assms by simp
  then have n1: "1 \<le> ?n" by linarith
  from binade_bounds [OF n1] have lo: "2 ^ binade ?n \<le> ?n" and hi: "?n < 2 ^ Suc (binade ?n)"
    by simp_all
  have nx: "(of_nat ?n :: rat) = of_int \<lfloor>x\<rfloor>" using fl1 by simp
  have "(2 :: rat) ^ binade ?n = of_nat (2 ^ binade ?n)" by simp
  also have "\<dots> \<le> of_nat ?n" using lo by (simp only: of_nat_le_iff)
  also have "\<dots> \<le> x" unfolding nx by (rule of_int_floor_le)
  finally show "2 ^ nat (exponent x) \<le> x" by (simp add: e)
  have "Suc ?n \<le> 2 ^ Suc (binade ?n)" using hi by simp
  then have "(of_nat (Suc ?n) :: rat) \<le> of_nat (2 ^ Suc (binade ?n))"
    by (simp only: of_nat_le_iff)
  moreover have "x < of_nat (Suc ?n)" using nx by simp linarith
  ultimately have "x < of_nat (2 ^ Suc (binade ?n))" by linarith
  then show "x < 2 ^ Suc (nat (exponent x))" by (simp add: e)
qed

lemma roundHalfEven_near: "\<bar>of_int (roundHalfEven y) - y\<bar> \<le> 1 / 2"
proof -
  have "of_int \<lfloor>y\<rfloor> \<le> y" and "y < of_int \<lfloor>y\<rfloor> + 1" by linarith+
  then show ?thesis
    by (auto simp: roundHalfEven_def Let_def abs_le_iff)
qed

text \<open>The relative error of the rounding is at most \<open>2\<^sup>-\<^sup>5\<^sup>3\<close>.\<close>

lemma binary64_error:
  assumes "1 \<le> x"
  shows "\<bar>binary64 x - x\<bar> \<le> x / 2 ^ 53"
proof -
  define e where "e = exponent x"
  define u :: rat where "u = 2 powi (e - 52)"
  define m where "m = roundHalfEven (x / u)"
  have x0: "0 < x" using assms by simp
  have u0: "0 < u" by (simp add: u_def)
  have b: "binary64 x = of_int m * u"
    using x0 by (simp add: binary64_def Let_def e_def u_def m_def)
  have e0: "0 \<le> e" unfolding e_def by (rule exponent_bounds(1) [OF assms])
  have lo: "2 powi e \<le> x"
    using exponent_bounds(2) [OF assms] e0 by (simp add: e_def power_int_def)
  have u2: "u = 2 powi e / 2 ^ 52"
    by (simp add: u_def power_int_diff)
  have "\<bar>of_int m * u - x\<bar> = \<bar>of_int m - x / u\<bar> * u"
  proof -
    have "of_int m * u - x = (of_int m - x / u) * u" using u0 by (simp add: field_simps)
    then show ?thesis using u0 by (simp add: abs_mult)
  qed
  also have "\<dots> \<le> (1 / 2) * u"
    using roundHalfEven_near [of "x / u"] u0 unfolding m_def
    by (intro mult_right_mono) simp_all
  also have "\<dots> = 2 powi e / 2 ^ 53" by (simp add: u2)
  also have "\<dots> \<le> x / 2 ^ 53" using lo by (simp add: divide_right_mono)
  finally show ?thesis by (simp add: b)
qed

lemma roundHalfEven_nonneg: "0 \<le> y \<Longrightarrow> 0 \<le> roundHalfEven y"
proof -
  assume "0 \<le> y"
  then have "0 \<le> \<lfloor>y\<rfloor>" by simp
  then show ?thesis by (auto simp: roundHalfEven_def Let_def)
qed

lemma binary64_nonneg: "0 \<le> x \<Longrightarrow> 0 \<le> binary64 x"
  using roundHalfEven_nonneg [of "\<bar>x\<bar> / 2 powi (exponent \<bar>x\<bar> - 52)"]
  by (auto simp: binary64_def Let_def sgn_if)

lemma exponent_powi:
  fixes x :: rat
  assumes "0 < x"
  shows "2 powi exponent x \<le> x \<and> x < 2 powi (exponent x + 1)"
proof (cases "1 \<le> x")
  case True
  note b = exponent_bounds [OF True]
  have "(2 :: rat) powi exponent x = 2 ^ nat (exponent x)"
    using b(1) by (simp add: power_int_def)
  moreover have "(2 :: rat) powi (exponent x + 1) = 2 ^ Suc (nat (exponent x))"
    using b(1) by (simp add: power_int_def nat_add_distrib)
  ultimately show ?thesis using b(2,3) by simp
next
  case False
  define n where "n = nat \<lceil>1 / x\<rceil> - 1"
  define b where "b = binade n"
  have e: "exponent x = - int (Suc b)" using False by (simp add: exponent_def n_def b_def)
  have ix: "1 < 1 / x" using assms False by simp
  then have c2: "2 \<le> \<lceil>1 / x\<rceil>" by linarith
  then have n1: "1 \<le> n" unfolding n_def by linarith
  have "int n = \<lceil>1 / x\<rceil> - 1" using c2 unfolding n_def by linarith
  then have "(of_int (int n) :: rat) = of_int (\<lceil>1 / x\<rceil> - 1)" by (simp only:)
  then have nc: "(of_nat n :: rat) = of_int \<lceil>1 / x\<rceil> - 1" by simp
  have nlt: "of_nat n < 1 / x" unfolding nc by linarith
  have nge: "1 / x \<le> of_nat n + 1" unfolding nc by simp
  from binade_bounds [OF n1] have lo: "2 ^ b \<le> n" and hi: "n < 2 ^ Suc b"
    by (simp_all add: b_def)
  have pb: "(2 :: rat) ^ b = of_nat (2 ^ b)" and pS: "(2 :: rat) ^ Suc b = of_nat (2 ^ Suc b)"
    by simp_all
  have "(of_nat (2 ^ b) :: rat) \<le> of_nat n" using lo by (simp only: of_nat_le_iff)
  then have lo': "(2 :: rat) ^ b < 1 / x" unfolding pb using nlt by linarith
  have "Suc n \<le> 2 ^ Suc b" using hi by simp
  then have "(of_nat (Suc n) :: rat) \<le> of_nat (2 ^ Suc b)" by (simp only: of_nat_le_iff)
  moreover have "(of_nat (Suc n) :: rat) = of_nat n + 1" by simp
  ultimately have hi': "1 / x \<le> (2 :: rat) ^ Suc b" unfolding pS using nge by linarith
  have p0: "(0 :: rat) < 2 ^ b" and p1: "(0 :: rat) < 2 ^ Suc b" by simp_all
  have a: "1 / (2 :: rat) ^ Suc b \<le> x"
    using hi' assms p1 by (simp add: field_simps)
  have c: "x < 1 / (2 :: rat) ^ b"
    using lo' assms p0 by (simp add: field_simps)
  have "(2 :: rat) powi (- int (Suc b)) = inverse (2 powi int (Suc b))"
    by (rule power_int_minus)
  also have "\<dots> = inverse (2 ^ Suc b)" by (simp only: power_int_of_nat)
  finally have p: "(2 :: rat) powi exponent x = 1 / 2 ^ Suc b"
    unfolding e by (simp only: inverse_eq_divide)
  have e1: "exponent x + 1 = - int b" unfolding e by simp
  have "(2 :: rat) powi (- int b) = inverse (2 powi int b)"
    by (rule power_int_minus)
  also have "\<dots> = inverse (2 ^ b)" by (simp only: power_int_of_nat)
  finally have q: "(2 :: rat) powi (exponent x + 1) = 1 / 2 ^ b"
    unfolding e1 by (simp only: inverse_eq_divide)
  show ?thesis unfolding p q using a c by (rule conjI)
qed

lemma roundHalfEven_of_int [simp]: "roundHalfEven (of_int k) = k"
  by (simp add: roundHalfEven_def)

lemma roundHalfEven_floor: "\<lfloor>y\<rfloor> \<le> roundHalfEven y \<and> roundHalfEven y \<le> \<lfloor>y\<rfloor> + 1"
  by (simp add: roundHalfEven_def Let_def)

lemma roundHalfEven_mono:
  assumes "x \<le> y"
  shows "roundHalfEven x \<le> roundHalfEven y"
proof (cases "\<lfloor>x\<rfloor> = \<lfloor>y\<rfloor>")
  case True
  have "x - of_int \<lfloor>x\<rfloor> \<le> y - of_int \<lfloor>y\<rfloor>" using assms True by simp
  then show ?thesis
    unfolding roundHalfEven_def Let_def True by auto
next
  case False
  have "\<lfloor>x\<rfloor> \<le> \<lfloor>y\<rfloor>" using assms by (rule floor_mono)
  with False have "\<lfloor>x\<rfloor> + 1 \<le> \<lfloor>y\<rfloor>" by simp
  with roundHalfEven_floor [of x] roundHalfEven_floor [of y] show ?thesis by linarith
qed

lemma binary64_pos:
  assumes "0 < x"
  shows "binary64 x
       = of_int (roundHalfEven (x / 2 powi (exponent x - 52))) * 2 powi (exponent x - 52)"
  using assms by (simp add: binary64_def Let_def)

text \<open>Rounding stays inside the binade of its argument.\<close>

lemma binary64_binade:
  assumes "0 < x"
  shows "2 powi exponent x \<le> binary64 x \<and> binary64 x \<le> 2 powi (exponent x + 1)"
proof -
  define e where "e = exponent x"
  define u :: rat where "u = 2 powi (e - 52)"
  have u0: "0 < u" by (simp add: u_def)
  have lo_u: "2 powi e = 2 ^ 52 * u" by (simp add: u_def power_int_diff)
  have hi_u: "2 powi (e + 1) = 2 ^ 53 * u" by (simp add: u_def power_int_diff power_int_add)
  from exponent_powi [OF assms] have "2 ^ 52 * u \<le> x" and "x < 2 ^ 53 * u"
    by (simp_all add: e_def [symmetric] lo_u hi_u)
  then have "2 ^ 52 \<le> x / u" and "x / u \<le> 2 ^ 53"
    using u0 by (simp_all add: field_simps)
  then have "(of_int (2 ^ 52) :: rat) \<le> x / u" and "x / u \<le> of_int (2 ^ 53)" by simp_all
  then have "roundHalfEven (of_int (2 ^ 52)) \<le> roundHalfEven (x / u)"
    and "roundHalfEven (x / u) \<le> roundHalfEven (of_int (2 ^ 53))"
    by (simp_all only: roundHalfEven_mono)
  then have "2 ^ 52 \<le> roundHalfEven (x / u)" and "roundHalfEven (x / u) \<le> 2 ^ 53"
    by (simp_all only: roundHalfEven_of_int)
  then have "(of_int (2 ^ 52) :: rat) \<le> of_int (roundHalfEven (x / u))"
    and "(of_int (roundHalfEven (x / u)) :: rat) \<le> of_int (2 ^ 53)"
    by (simp_all only: of_int_le_iff)
  then have "2 ^ 52 * u \<le> of_int (roundHalfEven (x / u)) * u"
    and "of_int (roundHalfEven (x / u)) * u \<le> 2 ^ 53 * u"
    using u0 by (simp_all add: mult_right_mono)
  then show ?thesis
    unfolding binary64_pos [OF assms] e_def [symmetric] u_def [symmetric] lo_u hi_u by simp
qed

lemma binary64_zero [simp]: "binary64 0 = 0"
  by (simp add: binary64_def)

lemma binary64_positive: "0 < x \<Longrightarrow> 0 < binary64 x"
proof -
  assume x: "0 < x"
  have "(0 :: rat) < 2 powi exponent x" by simp
  with binary64_binade [OF x] show ?thesis by linarith
qed

lemma binary64_minus: "binary64 (- x) = - binary64 x"
  by (simp add: binary64_def Let_def sgn_if)

lemma binary64_mono_pos:
  assumes "0 < x" and "x \<le> y"
  shows "binary64 x \<le> binary64 y"
proof -
  have y: "0 < y" using assms by simp
  note bx = exponent_powi [OF assms(1)] and by' = exponent_powi [OF y]
  have le: "exponent x \<le> exponent y"
  proof (rule ccontr)
    assume "\<not> exponent x \<le> exponent y"
    then have "exponent y + 1 \<le> exponent x" by simp
    then have "(2 :: rat) powi (exponent y + 1) \<le> 2 powi exponent x"
      by (intro power_int_increasing) simp_all
    with bx by' assms(2) show False by linarith
  qed
  show ?thesis
  proof (cases "exponent x = exponent y")
    case True
    define u :: rat where "u = 2 powi (exponent y - 52)"
    have u0: "0 < u" by (simp add: u_def)
    have "x / u \<le> y / u" using assms(2) u0 by (simp add: divide_right_mono)
    then have "roundHalfEven (x / u) \<le> roundHalfEven (y / u)" by (rule roundHalfEven_mono)
    then have "(of_int (roundHalfEven (x / u)) :: rat) \<le> of_int (roundHalfEven (y / u))"
      by (simp only: of_int_le_iff)
    then have "of_int (roundHalfEven (x / u)) * u \<le> of_int (roundHalfEven (y / u)) * u"
      using u0 by (simp add: mult_right_mono)
    then show ?thesis
      unfolding binary64_pos [OF assms(1)] binary64_pos [OF y] True u_def [symmetric] .
  next
    case False
    with le have "exponent x + 1 \<le> exponent y" by simp
    then have "(2 :: rat) powi (exponent x + 1) \<le> 2 powi exponent y"
      by (intro power_int_increasing) simp_all
    with binary64_binade [OF assms(1)] binary64_binade [OF y] show ?thesis by linarith
  qed
qed

text \<open>Rounding to binary64 is monotone.\<close>

lemma binary64_mono:
  assumes "x \<le> y"
  shows "binary64 x \<le> binary64 y"
proof -
  consider "0 < x" | "x \<le> 0" "0 \<le> y" | "y < 0" using assms by linarith
  then show ?thesis
  proof cases
    case 1
    then show ?thesis using assms by (rule binary64_mono_pos)
  next
    case 2
    have "binary64 x \<le> 0"
    proof (cases "x = 0")
      case True
      then show ?thesis by simp
    next
      case False
      with 2 have "0 < - x" by simp
      from binary64_positive [OF this] show ?thesis by (simp add: binary64_minus)
    qed
    moreover have "0 \<le> binary64 y" using 2 by (intro binary64_nonneg)
    ultimately show ?thesis by linarith
  next
    case 3
    then have "0 < - y" and "- y \<le> - x" using assms by simp_all
    from binary64_mono_pos [OF this] show ?thesis by (simp add: binary64_minus)
  qed
qed

text \<open>A number with a significand of at most 53 bits is its own rounding.\<close>

lemma binary64_exact_pos:
  fixes m :: int
  assumes "0 < m" and "m < 2 ^ 53"
  shows "binary64 (of_int m * 2 powi j) = of_int m * 2 powi j"
proof -
  define x :: rat where "x = of_int m * 2 powi j"
  define e where "e = exponent x"
  define u :: rat where "u = 2 powi (e - 52)"
  have x0: "0 < x" using assms(1) by (simp add: x_def)
  have u0: "0 < u" by (simp add: u_def)
  have "(of_int m :: rat) < of_int (2 ^ 53)" using assms(2) by (simp only: of_int_less_iff)
  then have "(of_int m :: rat) * 2 powi j < 2 ^ 53 * 2 powi j"
    by (intro mult_strict_right_mono) simp_all
  also have "\<dots> = 2 powi (53 + j)" by (simp add: power_int_add)
  finally have hi: "x < 2 powi (53 + j)" by (simp only: x_def)
  have lo: "2 powi e \<le> x" unfolding e_def using exponent_powi [OF x0] by simp
  have "e < 53 + j"
  proof (rule ccontr)
    assume "\<not> e < 53 + j"
    then have "53 + j \<le> e" by simp
    then have "(2 :: rat) powi (53 + j) \<le> 2 powi e"
      by (intro power_int_increasing) simp_all
    with lo hi show False by linarith
  qed
  then have k0: "0 \<le> j - (e - 52)" by simp
  have "x / u = of_int m * (2 powi j / 2 powi (e - 52))" by (simp add: x_def u_def)
  also have "2 powi j / 2 powi (e - 52) = (2 :: rat) powi (j - (e - 52))"
    by (simp add: power_int_diff)
  also have "\<dots> = 2 ^ nat (j - (e - 52))" using k0 by (simp add: power_int_def)
  finally have "x / u = of_int (m * 2 ^ nat (j - (e - 52)))" by simp
  then have "of_int (roundHalfEven (x / u)) = x / u" by (simp only: roundHalfEven_of_int)
  then have "of_int (roundHalfEven (x / u)) * u = x" using u0 by simp
  then have "binary64 x = x"
    unfolding binary64_pos [OF x0] e_def [symmetric] u_def [symmetric] .
  then show ?thesis unfolding x_def .
qed

lemma binary64_exact:
  fixes m :: int
  assumes "\<bar>m\<bar> < 2 ^ 53"
  shows "binary64 (of_int m * 2 powi j) = of_int m * 2 powi j"
proof -
  consider "0 < m" | "m = 0" | "m < 0" by linarith
  then show ?thesis
  proof cases
    case 1
    then show ?thesis using assms by (intro binary64_exact_pos) simp_all
  next
    case 2
    then show ?thesis by simp
  next
    case 3
    then have "0 < - m" and "- m < 2 ^ 53" using assms by simp_all
    from binary64_exact_pos [OF this, of j] binary64_minus [of "of_int m * 2 powi j"]
    show ?thesis by simp
  qed
qed

lemma binary64_of_int:
  "\<bar>k\<bar> < 2 ^ 53 \<Longrightarrow> binary64 (of_int k) = of_int k"
  using binary64_exact [of k 0] by simp

lemma binary64_numeral:
  "(numeral n :: int) < 2 ^ 53 \<Longrightarrow> binary64 (numeral n) = numeral n"
  using binary64_of_int [of "numeral n"] by simp

lemma binary64_dyadic:
  "\<bar>m\<bar> < 2 ^ 53 \<Longrightarrow> binary64 (of_int m / 2 ^ k) = of_int m / 2 ^ k"
  using binary64_exact [of m "- int k"]
  by (simp add: power_int_minus divide_inverse)

lemma binary64_examples:
  "binary64 (3 / 2) = 3 / 2"
  "binary64 (31 / 4) = 31 / 4"
  "binary64 (559 / 8) = 559 / 8"
  using binary64_dyadic [of 3 1] binary64_dyadic [of 31 2] binary64_dyadic [of 559 3]
  by simp_all

lemma exponent_unique:
  assumes "2 powi e \<le> x" and "x < 2 powi (e + 1)"
  shows "exponent x = e"
proof -
  have "(0 :: rat) < 2 powi e" by simp
  with assms(1) have x0: "0 < x" by linarith
  note b = exponent_powi [OF x0]
  have "\<not> e + 1 \<le> exponent x"
  proof
    assume "e + 1 \<le> exponent x"
    then have "(2 :: rat) powi (e + 1) \<le> 2 powi exponent x"
      by (intro power_int_increasing) simp_all
    with b assms(2) show False by linarith
  qed
  moreover have "\<not> exponent x + 1 \<le> e"
  proof
    assume "exponent x + 1 \<le> e"
    then have "(2 :: rat) powi (exponent x + 1) \<le> 2 powi e"
      by (intro power_int_increasing) simp_all
    with b assms(1) show False by linarith
  qed
  ultimately show ?thesis by linarith
qed

lemma binary64_eval:
  assumes "2 powi e \<le> x" and "x < 2 powi (e + 1)"
  shows "binary64 x = of_int (roundHalfEven (x / 2 powi (e - 52))) * 2 powi (e - 52)"
proof -
  have "(0 :: rat) < 2 powi e" by simp
  with assms(1) have x0: "0 < x" by linarith
  show ?thesis
    unfolding binary64_pos [OF x0] exponent_unique [OF assms] ..
qed

text \<open>
  The binary64 quotients of 1234500 by 1000000 and of 45300, 1150 and 1250 by 1000,
  the exact quotients in lowest terms.
\<close>

lemma binary64_quotients:
  "binary64 (2469 / 2000) = 5559693739988877 / 4503599627370496"
  "binary64 (453 / 10) = 3187704111248179 / 70368744177664"
  "binary64 (23 / 20) = 2589569785738035 / 2251799813685248"
  "binary64 (5 / 4) = 5 / 4"
  using binary64_eval [of 0 "2469 / 2000"] binary64_eval [of 5 "453 / 10"]
    binary64_eval [of 0 "23 / 20"] binary64_eval [of 0 "5 / 4"]
  by (simp_all add: roundHalfEven_def Let_def)


subsection \<open>Arithmetic of the score\<close>

lemma daysSincePublish_ge_1: "1 \<le> daysSincePublish now item"
  by (simp add: daysSincePublish_def)

lemma Math_round_mono: "x \<le> y \<Longrightarrow> Math_round x \<le> Math_round y"
  by (simp add: Math_round_def floor_mono)

text \<open>
  The raw score does not decrease with the views or with the likes: every operation
  is monotone, and so is every rounding.
\<close>

lemma rawScore_mono:
  fixes v v' l l' :: int and d :: rat
  assumes "0 < d" and "v \<le> v'" and "l \<le> l'"
  shows "binary64
        (binary64 (binary64 (binary64 (of_int v / d) * (1 / 2)) + binary64 (of_int l * 10))
         + (if v > 100000 then 50 else 0))
      \<le> binary64
        (binary64 (binary64 (binary64 (of_int v' / d) * (1 / 2)) + binary64 (of_int l' * 10))
         + (if v' > 100000 then 50 else 0))"
proof -
  have "(of_int v :: rat) / d \<le> of_int v' / d"
    using assms(1,2) by (simp add: divide_right_mono)
  then have "binary64 (of_int v / d) * (1 / 2) \<le> binary64 (of_int v' / d) * (1 / 2)"
    using binary64_mono by simp
  then have a: "binary64 (binary64 (of_int v / d) * (1 / 2))
      \<le> binary64 (binary64 (of_int v' / d) * (1 / 2))"
    by (rule binary64_mono)
  have "(of_int l :: rat) * 10 \<le> of_int l' * 10" using assms(3) by simp
  then have b: "binary64 (of_int l * 10) \<le> binary64 (of_int l' * 10)"
    by (rule binary64_mono)
  have c: "(if v > 100000 then 50 else 0 :: rat) \<le> (if v' > 100000 then 50 else 0)"
    using assms(2) by simp
  have "binary64 (binary64 (of_int v / d) * (1 / 2)) + binary64 (of_int l * 10)
      \<le> binary64 (binary64 (of_int v' / d) * (1 / 2)) + binary64 (of_int l' * 10)"
    using a b by (rule add_mono)
  then have "binary64 (binary64 (binary64 (of_int v / d) * (1 / 2)) + binary64 (of_int l * 10))
      \<le> binary64 (binary64 (binary64 (of_int v' / d) * (1 / 2)) + binary64 (of_int l' * 10))"
    by (rule binary64_mono)
  then have "binary64 (binary64 (binary64 (of_int v / d) * (1 / 2)) + binary64 (of_int l * 10))
        + (if v > 100000 then 50 else 0)
      \<le> binary64 (binary64 (binary64 (of_int v' / d) * (1 / 2)) + binary64 (of_int l' * 10))
        + (if v' > 100000 then 50 else 0)"
    using c by (rule add_mono)
  then show ?thesis by (rule binary64_mono)
qed

lemma roundedScore_mono_views:
  assumes "v \<le> v'"
  shows "roundedScore now (item\<lparr>statistics_viewCount := v\<rparr>)
       \<le> roundedScore now (item\<lparr>statistics_viewCount := v'\<rparr>)"
proof -
  have d: "0 < daysSincePublish now item"
    using daysSincePublish_ge_1 [of now item] by linarith
  show ?thesis
    unfolding roundedScore_def
    using rawScore_mono [OF d assms order_refl, of "statistics_likeCount item"]
    by (intro Math_round_mono) (simp add: daysSincePublish_def)
qed

lemma roundedScore_mono_likes:
  assumes "l \<le> l'"
  shows "roundedScore now (item\<lparr>statistics_likeCount := l\<rparr>)
       \<le> roundedScore now (item\<lparr>statistics_likeCount := l'\<rparr>)"
proof -
  have d: "0 < daysSincePublish now item"
    using daysSincePublish_ge_1 [of now item] by linarith
  show ?thesis
    unfolding roundedScore_def
    using rawScore_mono [OF d order_refl assms, of "statistics_viewCount item"]
    by (intro Math_round_mono) (simp add: daysSincePublish_def)
qed

subsection \<open>The digit printed\<close>

text \<open>
  For a count below \<open>10\<^sup>1\<^sup>4\<close>, the tenth that \<open>toFixed(1)\<close> prints for the binary64
  quotient \<open>c / d\<close> is a tenth nearest to the exact quotient: the error of the division
  is smaller than the distance of the exact quotient to the next half-way point.
\<close>

lemma nearest_tenth:
  fixes c d :: int
  assumes "0 < d" and "d \<le> c" and "c < 100000000000000"
  defines "k \<equiv> \<lfloor>binary64 (of_int c / of_int d) * 10 + 1 / 2\<rfloor>"
  shows "\<bar>of_int c / of_int d - (of_int k :: rat) / 10\<bar> \<le> 1 / 20"
proof -
  define x :: rat where "x = of_int c / of_int d"
  define y where "y = binary64 x"
  have d0: "(0 :: rat) < of_int d" using assms(1) by simp
  have x1: "1 \<le> x" using assms(1,2) by (simp add: x_def)
  define E where "E = x / 2 ^ 53"
  define D :: rat where "D = 1 / (2 * of_int d)"
  have err: "\<bar>y - x\<bar> \<le> E" unfolding y_def E_def by (rule binary64_error [OF x1])
  have e1: "y - x \<le> E" using err by (rule abs_le_D1)
  have e2: "x - y \<le> E" using abs_le_D2 [OF err] by simp
  have k: "k = \<lfloor>y * 10 + 1 / 2\<rfloor>" by (simp add: k_def y_def x_def)
  have klo: "of_int k \<le> y * 10 + 1 / 2" unfolding k by (rule of_int_floor_le)
  have khi: "y * 10 + 1 / 2 < of_int k + 1" unfolding k by linarith
  have c53: "(of_int c :: rat) * 20 < 2 ^ 53"
  proof -
    have "c * 20 < 2 ^ 53" using assms(3) by simp
    then have "(of_int (c * 20) :: rat) < of_int (2 ^ 53)" by (simp only: of_int_less_iff)
    then show ?thesis by simp
  qed
  have eps: "E * 10 < D"
  proof -
    have "E * 10 = (of_int c * 20 / 2 ^ 53) * D"
      using d0 by (simp add: x_def E_def D_def field_simps)
    also have "\<dots> < 1 * D"
      using c53 d0 by (intro mult_strict_right_mono) (simp_all add: D_def)
    finally show ?thesis by simp
  qed
  define N where "N = 20 * c - 2 * k * d + d"
  define M where "M = d - 20 * c + 2 * k * d"
  have Nq: "x * 10 - of_int k + 1 / 2 = of_int N * D"
    using d0 by (simp add: x_def N_def D_def field_simps)
  have Mq: "1 / 2 - (x * 10 - of_int k) = of_int M * D"
    using d0 by (simp add: x_def M_def D_def field_simps)
  have D0: "0 < D" using d0 by (simp add: D_def)
  have "x * 10 - of_int k + 1 / 2 > - D"
    using e1 e2 klo khi eps by linarith
  then have "(- 1) * D < of_int N * D" unfolding Nq by simp
  then have "(- 1 :: rat) < of_int N"
    using D0 mult_less_cancel_right_pos [of D "- 1" "of_int N"] by blast
  then have "N > - 1" by linarith
  then have N0: "0 \<le> N" by simp
  have "1 / 2 - (x * 10 - of_int k) > - D"
    using e1 e2 klo khi eps by linarith
  then have "(- 1) * D < of_int M * D" unfolding Mq by simp
  then have "(- 1 :: rat) < of_int M"
    using D0 mult_less_cancel_right_pos [of D "- 1" "of_int M"] by blast
  then have "M > - 1" by linarith
  then have M0: "0 \<le> M" by simp
  have a: "0 \<le> x * 10 - of_int k + 1 / 2"
    unfolding Nq using N0 D0 by simp
  have b: "0 \<le> 1 / 2 - (x * 10 - of_int k)"
    unfolding Mq using M0 D0 by simp
  have "x - of_int k / 10 \<le> 1 / 20" and "- (x - of_int k / 10) \<le> 1 / 20"
    using a b by linarith+
  then have "\<bar>x - of_int k / 10\<bar> \<le> 1 / 20" by (rule abs_leI)
  then show ?thesis by (simp only: x_def)
qed

lemma toFixed1_nonneg:
  assumes "0 \<le> y"
  shows "toFixed1 y =
           digits (nat \<lfloor>y * 10 + 1 / 2\<rfloor> div 10) @ ''.'' @ [digit (nat \<lfloor>y * 10 + 1 / 2\<rfloor> mod 10)]"
  using assms by (simp add: toFixed1_def Let_def abs_of_nonneg)

lemma toFixed1_quotient:
  fixes c d :: int
  assumes "0 < d" and "d \<le> c"
  shows "\<exists>n :: nat.
           \<bar>binary64 (of_int c / of_int d) - (of_nat n :: rat) / 10\<bar> \<le> 1 / 20
           \<and> (c < 100000000000000
                \<longrightarrow> \<bar>of_int c / of_int d - (of_nat n :: rat) / 10\<bar> \<le> 1 / 20)
           \<and> toFixed1 (binary64 (of_int c / of_int d))
               = digits (n div 10) @ ''.'' @ [digit (n mod 10)]"
proof -
  define y where "y = binary64 (of_int c / of_int d)"
  define k where "k = \<lfloor>y * 10 + 1 / 2\<rfloor>"
  have y0: "0 \<le> y"
    unfolding y_def using assms(1,2) by (intro binary64_nonneg) simp
  then have k0: "0 \<le> k" by (simp add: k_def)
  have nk: "(of_nat (nat k) :: rat) = of_int k" using k0 by simp
  have klo: "of_int k \<le> y * 10 + 1 / 2" unfolding k_def by (rule of_int_floor_le)
  have khi: "y * 10 + 1 / 2 < of_int k + 1" unfolding k_def by linarith
  have "y - of_int k / 10 \<le> 1 / 20" and "- (y - of_int k / 10) \<le> 1 / 20"
    using klo khi by linarith+
  then have "\<bar>y - of_int k / 10\<bar> \<le> 1 / 20" by (rule abs_leI)
  then have near_y: "\<bar>y - (of_nat (nat k) :: rat) / 10\<bar> \<le> 1 / 20"
    by (simp only: nk)
  have near_x: "\<bar>of_int c / of_int d - (of_nat (nat k) :: rat) / 10\<bar> \<le> 1 / 20"
    if "c < 100000000000000"
  proof -
    have "\<bar>of_int c / of_int d - (of_int k :: rat) / 10\<bar> \<le> 1 / 20"
      unfolding k_def y_def by (rule nearest_tenth [OF assms that])
    then show ?thesis by (simp only: nk)
  qed
  have "toFixed1 y = digits (nat k div 10) @ ''.'' @ [digit (nat k mod 10)]"
    unfolding k_def by (rule toFixed1_nonneg [OF y0])
  with near_y near_x show ?thesis unfolding y_def by blast
qed

subsection \<open>The candidate selected\<close>

lemma sorted_hd_le:
  fixes f :: "'a \<Rightarrow> rat"
  assumes "sorted (map f xs)" and "x \<in> set xs"
  shows "f (hd xs) \<le> f x"
  using assms by (cases xs) auto

lemma sortByEngagement_Nil_iff: "sortByEngagement cands = [] \<longleftrightarrow> cands = []"
  by (metis length_sort sortByEngagement_def length_0_conv)

lemma sortByEngagement_hd:
  assumes "cands \<noteq> []"
  shows "hd (sortByEngagement cands) \<in> set cands"
    and "\<forall>v\<in>set cands. engagementScore v \<le> engagementScore (hd (sortByEngagement cands))"
proof -
  let ?s = "sortByEngagement cands"
  have ne: "?s \<noteq> []"
    using assms by (simp add: sortByEngagement_Nil_iff)
  have "hd ?s \<in> set ?s" using ne by simp
  then show "hd ?s \<in> set cands" by (simp add: sortByEngagement_def)
  have srt: "sorted (map (\<lambda>v. - engagementScore v) ?s)"
    by (simp add: sortByEngagement_def)
  show "\<forall>v\<in>set cands. engagementScore v \<le> engagementScore (hd ?s)"
  proof
    fix v assume "v \<in> set cands"
    then have "v \<in> set ?s" by (simp add: sortByEngagement_def)
    from sorted_hd_le [OF srt this] show "engagementScore v \<le> engagementScore (hd ?s)" by simp
  qed
qed

subsection \<open>The search and the stages of the handler\<close>

lemma searchYouTube_details:
  assumes "fetchSearch w query maxResults apiKey = Reply searchStatus ids"
      and "ok searchStatus"
      and "join ids \<noteq> ''''"
      and "fetchDetails w (join ids) apiKey = Reply detailsStatus items"
      and "ok detailsStatus"
  shows "searchYouTube w query apiKey maxResults
       = Inr (sortByEngagement (map (scoreItem (Date_now w)) items))"
  using assms by (simp add: searchYouTube_def)

lemma searchYouTube_from_items:
  assumes "searchYouTube w query apiKey maxResults = Inr videos"
      and "v \<in> set videos"
  shows "\<exists>ids detailsStatus items it.
           fetchDetails w ids apiKey = Reply detailsStatus items \<and> ok detailsStatus
           \<and> it \<in> set items \<and> v = scoreItem (Date_now w) it"
proof -
  from assms(1) have "videos = [] \<or>
    (\<exists>ids detailsStatus items.
        fetchDetails w ids apiKey = Reply detailsStatus items \<and> ok detailsStatus
        \<and> videos = sortByEngagement (map (scoreItem (Date_now w)) items))"
    by (auto simp: searchYouTube_def Let_def split: fetched.splits if_splits)
  with assms(2) obtain ids detailsStatus items where
    f: "fetchDetails w ids apiKey = Reply detailsStatus items" "ok detailsStatus"
    and vs: "videos = sortByEngagement (map (scoreItem (Date_now w)) items)"
    by auto
  from assms(2) vs obtain it where "it \<in> set items" "v = scoreItem (Date_now w) it"
    by (auto simp: sortByEngagement_def)
  with f show ?thesis by blast
qed

lemma searchSubtask_title:
  "swv_title (searchSubtask w topic apiKey (idx, st))
     = orElse (subtask_title st) (''Part '' @ digits (idx + 1))"
  "swv_description (searchSubtask w topic apiKey (idx, st)) = orElse (subtask_searchQuery st) ''''"
  by (simp_all add: searchSubtask_def split: sum.splits)

lemma searchSubtask_videos:
  "swv_videos (searchSubtask w topic apiKey (idx, st)) =
     (case searchYouTube w (subtaskQuery topic st) apiKey 5 of
        Inl err \<Rightarrow> [] | Inr videos \<Rightarrow> map rankVideo (enumerate 0 videos))"
  by (simp add: searchSubtask_def split: sum.splits)

lemma assemble_Cons:
  assumes "searchYouTube w (mainQuery topic p) apiKey 5 = Inr (primaryVideo # others)"
  shows "assemble w topic apiKey p =
     Inr \<lparr> status = 200,
           body = ResultBody
             \<lparr> res_videoId = videoId primaryVideo,
               res_title = title primaryVideo,
               res_channel = channel primaryVideo,
               res_reason = ''Best educational video for '' @ [CHR 0x22] @ topic
                 @ [CHR 0x22] @ '' with '' @ viewCount primaryVideo @ '' views'',
               res_subtasks =
                 map (searchSubtask w topic apiKey) (enumerate 0 (planSubtasks p)) \<rparr> \<rparr>"
  using assms by (simp add: assemble_def)

lemma assemble_Nil:
  assumes "searchYouTube w (mainQuery topic p) apiKey 5 = Inr []"
  shows "assemble w topic apiKey p = Inl (Error ''No videos found for this topic'')"
  using assms by (simp add: assemble_def)

lemma assemble_Inr:
  assumes "assemble w topic apiKey p = Inr resp"
  shows "\<exists>primaryVideo others.
           searchYouTube w (mainQuery topic p) apiKey 5 = Inr (primaryVideo # others)"
  using assms by (auto simp: assemble_def split: sum.splits list.splits)

lemma assemble_Inr_status:
  "assemble w topic apiKey p = Inr resp \<Longrightarrow> status resp = 200 \<and> (\<exists>d. body resp = ResultBody d)"
  by (auto simp: assemble_def split: sum.splits list.splits)

lemma planTopic_Return_body:
  "planTopic w req = Return resp \<Longrightarrow> \<exists>m. body resp = ErrorBody m"
  by (auto simp: planTopic_def split: sum.splits option.splits fetched.splits if_splits)

lemma planTopic_Return_status:
  "planTopic w req = Return resp \<Longrightarrow> status resp \<in> {400, 402, 429}"
  by (auto simp: planTopic_def split: sum.splits option.splits fetched.splits if_splits)

lemma planTopic_Return_cases:
  assumes "planTopic w req = Return resp"
  shows "(resp = \<lparr> status = 400, body = ErrorBody ''Topic is required'' \<rparr>
            \<and> (\<exists>topicField. req_json req = Inr topicField \<and> truthy topicField = None))
       \<or> (resp = \<lparr> status = 429, body = ErrorBody ''Rate limit exceeded. Please try again later.'' \<rparr>
            \<and> (\<exists>topic aiKey content. req_json req = Inr (Some topic)
                  \<and> truthy (env_LOVABLE_API_KEY w) = Some aiKey
                  \<and> fetchCompletion w aiKey topic = Reply 429 content))
       \<or> (resp = \<lparr> status = 402, body = ErrorBody ''Payment required. Please add credits.'' \<rparr>
            \<and> (\<exists>topic aiKey content. req_json req = Inr (Some topic)
                  \<and> truthy (env_LOVABLE_API_KEY w) = Some aiKey
                  \<and> fetchCompletion w aiKey topic = Reply 402 content))"
  using assms
  by (auto simp: planTopic_def truthy_def split: sum.splits option.splits fetched.splits if_splits)

lemma planTopic_Continue_topic:
  "planTopic w req = Continue (topic, apiKey, p) \<Longrightarrow> req_json req = Inr (Some topic)"
  by (auto simp: planTopic_def truthy_def
           split: sum.splits option.splits fetched.splits if_splits)

lemma handler_Continue:
  assumes "req_method req \<noteq> ''OPTIONS''"
      and "planTopic w req = Continue (topic, apiKey, p)"
  shows "handler w req
       = (case assemble w topic apiKey p of Inl err \<Rightarrow> caught err | Inr resp \<Rightarrow> resp)"
  using assms by (simp add: handler_def)

lemma handler_cases:
  assumes "req_method req \<noteq> ''OPTIONS''"
  shows "(\<exists>err. (planTopic w req = Throw err
                 \<or> (\<exists>topic apiKey p. planTopic w req = Continue (topic, apiKey, p)
                        \<and> assemble w topic apiKey p = Inl err))
               \<and> handler w req = \<lparr> status = 500, body = ErrorBody (message err) \<rparr>)
       \<or> (planTopic w req = Return (handler w req))
       \<or> (\<exists>topic apiKey p. planTopic w req = Continue (topic, apiKey, p)
              \<and> assemble w topic apiKey p = Inr (handler w req))"
proof (cases "planTopic w req")
  case (Throw err)
  then show ?thesis using assms by (simp add: handler_def caught_def)
next
  case (Return resp)
  then show ?thesis using assms by (simp add: handler_def)
next
  case (Continue x)
  obtain topic apiKey p where x: "x = (topic, apiKey, p)" by (cases x) auto
  show ?thesis
  proof (cases "assemble w topic apiKey p")
    case (Inl err)
    then show ?thesis using assms Continue x by (simp add: handler_def caught_def)
  next
    case (Inr resp)
    then show ?thesis using assms Continue x by (simp add: handler_def)
  qed
qed

lemma handler_ResultBody:
  assumes "body (handler w req) = ResultBody d"
  shows "req_method req \<noteq> ''OPTIONS'' \<and>
         (\<exists>topic apiKey p. planTopic w req = Continue (topic, apiKey, p)
             \<and> assemble w topic apiKey p = Inr (handler w req))"
proof (cases "req_method req = ''OPTIONS''")
  case True
  then show ?thesis using assms by (simp add: handler_def)
next
  case False
  from handler_cases [OF False, of w] planTopic_Return_body [of w req "handler w req"] assms
  show ?thesis using False by auto
qed

lemma map_of_length_2:
  "length xs = 2 \<Longrightarrow> map f xs = [f (xs ! 0), f (xs ! 1)]"
  by (auto simp: length_Suc_conv numeral_2_eq_2)

lemma map_of_length_3:
  "length xs = 3 \<Longrightarrow> map f xs = [f (xs ! 0), f (xs ! 1), f (xs ! 2)]"
  by (auto simp: length_Suc_conv numeral_3_eq_3)

subsection \<open>The world \<open>classroom\<close>, evaluated\<close>

lemma format_examples:
  "formatViewCount 1234500 = ''1.2M''"
  "formatViewCount 45300 = ''45.3K''"
  "formatViewCount 999 = ''999''"
  by (simp_all add: formatViewCount_def toFixed1_def toString_def Let_def digits.simps digit_def
      binary64_quotients)

text \<open>Exact ties of the decimal quotient: the binary64 quotient decides.\<close>

lemma format_ties:
  "formatViewCount 1150 = ''1.1K''"
  "formatViewCount 1250 = ''1.3K''"
  by (simp_all add: formatViewCount_def toFixed1_def toString_def Let_def digits.simps digit_def
      binary64_quotients)

lemma score_algebraItem: "scoreItem 864000000 algebraItem = algebraVideo"
  by (simp add: scoreItem_def roundedScore_def daysSincePublish_def Math_round_def
      binary64_numeral binary64_examples format_examples algebraItem_def algebraVideo_def)

lemma score_quietItem: "scoreItem 864000000 quietItem = quietVideo"
  by (simp add: scoreItem_def roundedScore_def daysSincePublish_def Math_round_def
      binary64_numeral binary64_examples format_examples quietItem_def quietVideo_def)

lemma sort_classroom: "sortByEngagement [quietVideo, algebraVideo] = [algebraVideo, quietVideo]"
  by (simp add: sortByEngagement_def quietVideo_def algebraVideo_def)

lemma classroom_found:
  assumes "query = ''algebra tutorial explained'' \<or> query = ''algebra introduction tutorial''
             \<or> query = ''sets tutorial''"
  shows "searchYouTube classroom query ''yt-key'' 5 = Inr [algebraVideo, quietVideo]"
  using assms
  by (auto simp: searchYouTube_def classroom_def ok_def score_algebraItem score_quietItem
      sort_classroom)

lemma classroom_refused:
  "searchYouTube classroom ''algebra explained for beginners'' ''yt-key'' 5
     = Inl (Error ''YouTube API error: 403'')"
  by (simp add: searchYouTube_def classroom_def ok_def digits.simps digit_def)

lemma classroom_nothing:
  assumes "query = ''algebra examples practice'' \<or> query = ''knots tutorial explained''"
  shows "searchYouTube classroom query ''yt-key'' 5 = Inr []"
  using assms by (auto simp: searchYouTube_def classroom_def ok_def)

lemma clean_chat: "cleanContent ''Sure! Here is your plan.'' = ''Sure! Here is your plan.''"
  by (simp add: cleanContent_def trim_def isSpace_def startsWith_def endsWith_def fence_def Let_def)

lemma clean_emptySubtasksText: "cleanContent emptySubtasksText = emptySubtasksText"
  by (simp add: cleanContent_def trim_def isSpace_def startsWith_def endsWith_def fence_def Let_def
      emptySubtasksText_def)

lemma chat_is_not_json: "''Sure! Here is your plan.'' \<noteq> emptySubtasksText"
  by (simp add: emptySubtasksText_def)

lemma classroom_plan_algebra:
  "planTopic classroom (post ''algebra'')
     = Continue (''algebra'', ''yt-key'', fallbackPlan ''algebra'')"
  by (simp add: planTopic_def classroom_def post_def truthy_def ok_def parseContent_def
      clean_chat chat_is_not_json)

lemma classroom_plan_sets:
  "planTopic classroom (post ''sets'')
     = Continue (''sets'', ''yt-key'', \<lparr> plan_subtasks = Some [], plan_mainSearchQuery = None \<rparr>)"
  by (simp add: planTopic_def classroom_def post_def truthy_def ok_def parseContent_def
      clean_emptySubtasksText)

lemma classroom_plan_knots:
  "planTopic classroom (post ''knots'') = Continue (''knots'', ''yt-key'', fallbackPlan ''knots'')"
  by (simp add: planTopic_def classroom_def post_def truthy_def ok_def parseContent_def)

lemma post_not_preflight: "req_method (post topic) \<noteq> ''OPTIONS''"
  by (simp add: post_def)

lemma mainQuery_fallback: "mainQuery topic (fallbackPlan topic) = topic @ '' tutorial explained''"
  by (simp add: mainQuery_def fallbackPlan_def orElse_def)

lemma planSubtasks_fallback:
  "planSubtasks (fallbackPlan topic) =
     [ \<lparr> subtask_title = Some (''Introduction to '' @ topic),
         subtask_searchQuery = Some (topic @ '' introduction tutorial'') \<rparr>,
       \<lparr> subtask_title = Some (''Core concepts of '' @ topic),
         subtask_searchQuery = Some (topic @ '' explained for beginners'') \<rparr>,
       \<lparr> subtask_title = Some (''Practice '' @ topic),
         subtask_searchQuery = Some (topic @ '' examples practice'') \<rparr> ]"
  by (simp add: planSubtasks_def fallbackPlan_def)

lemma classroom_main_algebra:
  "searchYouTube classroom (mainQuery ''algebra'' (fallbackPlan ''algebra'')) ''yt-key'' 5
     = Inr [algebraVideo, quietVideo]"
  by (rule classroom_found) (simp add: mainQuery_fallback)


lemma classroom_main_knots:
  "searchYouTube classroom (mainQuery ''knots'' (fallbackPlan ''knots'')) ''yt-key'' 5 = Inr []"
  by (rule classroom_nothing) (simp add: mainQuery_fallback)

lemma classroom_subtask_queries:
  "subtaskQuery ''algebra'' (planSubtasks (fallbackPlan ''algebra'') ! 0)
     = ''algebra introduction tutorial''"
  "subtaskQuery ''algebra'' (planSubtasks (fallbackPlan ''algebra'') ! 1)
     = ''algebra explained for beginners''"
  "subtaskQuery ''algebra'' (planSubtasks (fallbackPlan ''algebra'') ! 2)
     = ''algebra examples practice''"
  by (simp_all add: planSubtasks_fallback subtaskQuery_def orElse_def)

lemma classroom_algebra_response:
  "handler classroom (post ''algebra'') = \<lparr> status = 200, body = ResultBody algebraResult \<rparr>"
proof -
  have s0: "searchYouTube classroom ''algebra introduction tutorial'' ''yt-key'' 5
              = Inr [algebraVideo, quietVideo]"
    by (rule classroom_found) simp
  have s2: "searchYouTube classroom ''algebra examples practice'' ''yt-key'' 5 = Inr []"
    by (rule classroom_nothing) simp
  show ?thesis
    using assemble_Cons [OF classroom_main_algebra]
    by (simp add: handler_Continue [OF post_not_preflight classroom_plan_algebra]
        planSubtasks_fallback searchSubtask_def subtaskQuery_def orElse_def
        s0 s2 classroom_refused rankVideo_def algebraVideo_def quietVideo_def
        algebraResult_def digits.simps digit_def)
qed

section \<open>The claims\<close>

subsection \<open>The engagement score\<close>

text \<open>
  C1 (as stated, refuted). The claim puts the rounding after the division by 1000:
  \<open>clamp(round(rawScore / 1000), 1, 100)\<close>. The source rounds the raw score first
  and divides the rounded value by 1000 inside the clamp. For the candidate with 150
  likes and no views the raw score is 1500: the source's score is 1.5, the claim's
  formula gives 2. (Every operation is exact on this input, in binary64 too.)
\<close>

theorem engagementScore_not_rounded_quotient:
  "engagementScore (scoreItem 0 likedItem) = 3 / 2
   \<and> spec_engagementScore (statistics_viewCount likedItem) (statistics_likeCount likedItem)
         (spec_daysSincePublish 0 (snippet_publishTime likedItem)) = 2
   \<and> engagementScore (scoreItem 0 likedItem)
       \<noteq> spec_engagementScore (statistics_viewCount likedItem) (statistics_likeCount likedItem)
           (spec_daysSincePublish 0 (snippet_publishTime likedItem))"
  by (simp add: scoreItem_def roundedScore_def daysSincePublish_def Math_round_def
      likedItem_def spec_engagementScore_def spec_rawScore_def spec_daysSincePublish_def
      clamp_def binary64_numeral binary64_examples)

text \<open>
  C1 (amended). For every candidate, the engagement score is
  \<open>clamp(round(rawScore) / 1000, 1, 100)\<close>, a number that need not be an integer, with
  \<open>rawScore\<close> and \<open>daysSincePublish\<close> as the claim gives them.
\<close>

theorem engagementScore_formula:
  "engagementScore (scoreItem now item) =
     clamp (binary64 (of_int (Math_round
              (spec_rawScore (statistics_viewCount item) (statistics_likeCount item)
                 (spec_daysSincePublish now (snippet_publishTime item)))) / 1000)) 1 100"
  by (simp add: scoreItem_def roundedScore_def daysSincePublish_def spec_rawScore_def
      spec_daysSincePublish_def clamp_def)

text \<open>
  C7. The engagement score of every candidate lies between 1 and 100, and it does not
  decrease when the view count grows (like count and age fixed) or when the like count
  grows (view count and age fixed).
\<close>

theorem engagementScore_bounded_monotone:
  "1 \<le> engagementScore (scoreItem now item)
   \<and> engagementScore (scoreItem now item) \<le> 100
   \<and> (\<forall>v v'. v \<le> v' \<longrightarrow>
          engagementScore (scoreItem now (item\<lparr>statistics_viewCount := v\<rparr>))
          \<le> engagementScore (scoreItem now (item\<lparr>statistics_viewCount := v'\<rparr>)))
   \<and> (\<forall>l l'. l \<le> l' \<longrightarrow>
          engagementScore (scoreItem now (item\<lparr>statistics_likeCount := l\<rparr>))
          \<le> engagementScore (scoreItem now (item\<lparr>statistics_likeCount := l'\<rparr>)))"
proof (intro conjI allI impI)
  show "1 \<le> engagementScore (scoreItem now item)"
    by (simp add: scoreItem_def)
  show "engagementScore (scoreItem now item) \<le> 100"
    by (simp add: scoreItem_def)
next
  fix v v' :: int
  assume "v \<le> v'"
  then have "(of_int (roundedScore now (item\<lparr>statistics_viewCount := v\<rparr>)) :: rat) / 1000
      \<le> of_int (roundedScore now (item\<lparr>statistics_viewCount := v'\<rparr>)) / 1000"
    using roundedScore_mono_views [of v v' now item] by (simp add: divide_right_mono)
  then have "binary64 (of_int (roundedScore now (item\<lparr>statistics_viewCount := v\<rparr>)) / 1000)
      \<le> binary64 (of_int (roundedScore now (item\<lparr>statistics_viewCount := v'\<rparr>)) / 1000)"
    by (rule binary64_mono)
  then show "engagementScore (scoreItem now (item\<lparr>statistics_viewCount := v\<rparr>))
      \<le> engagementScore (scoreItem now (item\<lparr>statistics_viewCount := v'\<rparr>))"
    by (simp add: scoreItem_def)
next
  fix l l' :: int
  assume "l \<le> l'"
  then have "(of_int (roundedScore now (item\<lparr>statistics_likeCount := l\<rparr>)) :: rat) / 1000
      \<le> of_int (roundedScore now (item\<lparr>statistics_likeCount := l'\<rparr>)) / 1000"
    using roundedScore_mono_likes [of l l' now item] by (simp add: divide_right_mono)
  then have "binary64 (of_int (roundedScore now (item\<lparr>statistics_likeCount := l\<rparr>)) / 1000)
      \<le> binary64 (of_int (roundedScore now (item\<lparr>statistics_likeCount := l'\<rparr>)) / 1000)"
    by (rule binary64_mono)
  then show "engagementScore (scoreItem now (item\<lparr>statistics_likeCount := l\<rparr>))
      \<le> engagementScore (scoreItem now (item\<lparr>statistics_likeCount := l'\<rparr>))"
    by (simp add: scoreItem_def)
qed

text \<open>
  C7, at concrete inputs: from 1000 to 5000000 views, and from 150 to 400 likes, on the
  candidate \<open>likedItem\<close>.
\<close>

theorem engagementScore_bounded_monotone_witness:
  "(1000 :: int) \<le> 5000000
   \<and> engagementScore (scoreItem 0 (likedItem\<lparr>statistics_viewCount := 1000\<rparr>))
     \<le> engagementScore (scoreItem 0 (likedItem\<lparr>statistics_viewCount := 5000000\<rparr>))
   \<and> (150 :: int) \<le> 400
   \<and> engagementScore (scoreItem 0 (likedItem\<lparr>statistics_likeCount := 150\<rparr>))
     \<le> engagementScore (scoreItem 0 (likedItem\<lparr>statistics_likeCount := 400\<rparr>))
   \<and> 1 \<le> engagementScore (scoreItem 0 likedItem)
   \<and> engagementScore (scoreItem 0 likedItem) \<le> 100"
proof -
  note T = engagementScore_bounded_monotone [of 0 likedItem]
  have v: "(1000 :: int) \<le> 5000000" and l: "(150 :: int) \<le> 400" by simp_all
  from T [THEN conjunct2, THEN conjunct2, THEN conjunct1, rule_format, OF v]
    T [THEN conjunct2, THEN conjunct2, THEN conjunct2, rule_format, OF l]
    T [THEN conjunct1] T [THEN conjunct2, THEN conjunct1] v l
  show ?thesis by (intro conjI)
qed

subsection \<open>The plan\<close>




text \<open>
  C8. When the content of the generative response is absent or does not parse, the
  plan is the fallback plan, which depends on the topic alone: the three subtasks
  \<open>Introduction to <topic>\<close>, \<open>Core concepts of <topic>\<close> and \<open>Practice <topic>\<close>,
  each with its search query, and the main query \<open><topic> tutorial explained\<close>.
\<close>

theorem fallback_plan_exact:
  assumes "content = None \<or> (\<exists>c. content = Some c \<and> JSON_parse w (cleanContent c) = None)"
  shows "parseContent w topic content =
           \<lparr> plan_subtasks = Some
               [ \<lparr> subtask_title = Some (''Introduction to '' @ topic),
                   subtask_searchQuery = Some (topic @ '' introduction tutorial'') \<rparr>,
                 \<lparr> subtask_title = Some (''Core concepts of '' @ topic),
                   subtask_searchQuery = Some (topic @ '' explained for beginners'') \<rparr>,
                 \<lparr> subtask_title = Some (''Practice '' @ topic),
                   subtask_searchQuery = Some (topic @ '' examples practice'') \<rparr> ],
             plan_mainSearchQuery = Some (topic @ '' tutorial explained'') \<rparr>
       \<and> map subtask_title (planSubtasks (parseContent w topic content)) =
           [Some (''Introduction to '' @ topic), Some (''Core concepts of '' @ topic),
            Some (''Practice '' @ topic)]
       \<and> mainQuery topic (parseContent w topic content) = topic @ '' tutorial explained''"
  using assms
  by (auto simp: parseContent_def fallbackPlan_def planSubtasks_def mainQuery_def orElse_def)

text \<open>C8, at the prose that the world \<open>classroom\<close> returns for the topic \<open>algebra\<close>.\<close>

theorem fallback_plan_exact_witness:
  "JSON_parse classroom (cleanContent ''Sure! Here is your plan.'') = None
   \<and> parseContent classroom ''algebra'' (Some ''Sure! Here is your plan.'') =
       \<lparr> plan_subtasks = Some
           [ \<lparr> subtask_title = Some ''Introduction to algebra'',
               subtask_searchQuery = Some ''algebra introduction tutorial'' \<rparr>,
             \<lparr> subtask_title = Some ''Core concepts of algebra'',
               subtask_searchQuery = Some ''algebra explained for beginners'' \<rparr>,
             \<lparr> subtask_title = Some ''Practice algebra'',
               subtask_searchQuery = Some ''algebra examples practice'' \<rparr> ],
         plan_mainSearchQuery = Some ''algebra tutorial explained'' \<rparr>
   \<and> mainQuery ''algebra'' (parseContent classroom ''algebra'' (Some ''Sure! Here is your plan.''))
       = ''algebra tutorial explained''"
proof -
  have p: "JSON_parse classroom (cleanContent ''Sure! Here is your plan.'') = None"
    by (simp add: clean_chat chat_is_not_json classroom_def)
  then have h: "Some ''Sure! Here is your plan.'' = None
      \<or> (\<exists>c. Some ''Sure! Here is your plan.'' = Some c
              \<and> JSON_parse classroom (cleanContent c) = None)"
    by simp
  from fallback_plan_exact [OF h, of "''algebra''"] p show ?thesis
    by (simp add: mainQuery_def orElse_def)
qed

subsection \<open>The primary video\<close>

text \<open>
  C3. When the main search gives a non-empty list of candidates, the primary video of
  the response is a scored candidate whose engagement score is maximal among them;
  and a second run whose main search gives the same candidates at the same clock value
  selects the same primary video, whatever its topic, plan and other replies are.
\<close>

theorem primaryVideo_maximal_reproducible:
  assumes "req_method req \<noteq> ''OPTIONS''"
      and "planTopic w req = Continue (topic, apiKey, p)"
      and "fetchSearch w (mainQuery topic p) 5 apiKey = Reply s1 ids"
      and "ok s1" and "join ids \<noteq> ''''"
      and "fetchDetails w (join ids) apiKey = Reply s2 items"
      and "ok s2"
      and "req_method req' \<noteq> ''OPTIONS''"
      and "planTopic w' req' = Continue (topic', apiKey', p')"
      and "fetchSearch w' (mainQuery topic' p') 5 apiKey' = Reply s1' ids'"
      and "ok s1'" and "join ids' \<noteq> ''''"
      and "fetchDetails w' (join ids') apiKey' = Reply s2' items"
      and "ok s2'"
      and "Date_now w' = Date_now w"
      and "items \<noteq> []"
  shows "\<exists>primary d d'.
           primary \<in> set (map (scoreItem (Date_now w)) items)
           \<and> (\<forall>v \<in> set (map (scoreItem (Date_now w)) items).
                 engagementScore v \<le> engagementScore primary)
           \<and> handler w req = \<lparr> status = 200, body = ResultBody d \<rparr>
           \<and> res_videoId d = videoId primary
           \<and> res_title d = title primary
           \<and> res_channel d = channel primary
           \<and> handler w' req' = \<lparr> status = 200, body = ResultBody d' \<rparr>
           \<and> res_videoId d' = res_videoId d
           \<and> res_title d' = res_title d
           \<and> res_channel d' = res_channel d"
proof -
  let ?cands = "map (scoreItem (Date_now w)) items"
  let ?sorted = "sortByEngagement ?cands"
  have ne: "?cands \<noteq> []" using assms(16) by simp
  obtain primary others where so: "?sorted = primary # others"
    using ne sortByEngagement_Nil_iff [of ?cands] by (cases ?sorted) auto
  have hd: "primary = hd ?sorted" using so by simp
  have mem: "primary \<in> set ?cands"
    using sortByEngagement_hd(1) [OF ne] hd by simp
  have mx: "\<forall>v \<in> set ?cands. engagementScore v \<le> engagementScore primary"
    using sortByEngagement_hd(2) [OF ne] hd by simp
  have m1: "searchYouTube w (mainQuery topic p) apiKey 5 = Inr (primary # others)"
    using searchYouTube_details [OF assms(3-7)] so by simp
  have m2: "searchYouTube w' (mainQuery topic' p') apiKey' 5 = Inr (primary # others)"
    using searchYouTube_details [OF assms(10-14)] so assms(15) by simp
  have h1: "handler w req
      = (case assemble w topic apiKey p of Inl err \<Rightarrow> caught err | Inr resp \<Rightarrow> resp)"
    by (rule handler_Continue [OF assms(1,2)])
  have h2: "handler w' req'
      = (case assemble w' topic' apiKey' p' of Inl err \<Rightarrow> caught err | Inr resp \<Rightarrow> resp)"
    by (rule handler_Continue [OF assms(8,9)])
  show ?thesis
    using mem mx h1 h2 assemble_Cons [OF m1] assemble_Cons [OF m2]
    by (intro exI [of _ primary]) auto
qed

text \<open>
  C3, at the requests for \<open>algebra\<close> and for \<open>sets\<close> in the world \<open>classroom\<close>: two
  different plans, whose main searches give the same two candidates.
\<close>

theorem primaryVideo_maximal_reproducible_witness:
  "req_method (post ''algebra'') \<noteq> ''OPTIONS''
   \<and> planTopic classroom (post ''algebra'')
       = Continue (''algebra'', ''yt-key'', fallbackPlan ''algebra'')
   \<and> fetchSearch classroom (mainQuery ''algebra'' (fallbackPlan ''algebra'')) 5 ''yt-key''
       = Reply 200 [''alg2'', ''alg1'']
   \<and> req_method (post ''sets'') \<noteq> ''OPTIONS''
   \<and> planTopic classroom (post ''sets'')
       = Continue (''sets'', ''yt-key'', \<lparr> plan_subtasks = Some [], plan_mainSearchQuery = None \<rparr>)
   \<and> fetchSearch classroom
         (mainQuery ''sets'' \<lparr> plan_subtasks = Some [], plan_mainSearchQuery = None \<rparr>) 5 ''yt-key''
       = Reply 200 [''alg2'', ''alg1'']
   \<and> ok 200
   \<and> join [''alg2'', ''alg1''] \<noteq> []
   \<and> fetchDetails classroom (join [''alg2'', ''alg1'']) ''yt-key''
       = Reply 200 [quietItem, algebraItem]
   \<and> [quietItem, algebraItem] \<noteq> []
   \<and> (\<exists>primary d d'.
          primary \<in> set (map (scoreItem (Date_now classroom)) [quietItem, algebraItem])
          \<and> engagementScore (scoreItem (Date_now classroom) quietItem) \<le> engagementScore primary
          \<and> engagementScore (scoreItem (Date_now classroom) algebraItem)
              \<le> engagementScore primary
          \<and> handler classroom (post ''algebra'') = \<lparr> status = 200, body = ResultBody d \<rparr>
          \<and> res_videoId d = videoId primary
          \<and> handler classroom (post ''sets'') = \<lparr> status = 200, body = ResultBody d' \<rparr>
          \<and> res_videoId d' = res_videoId d
          \<and> res_title d' = res_title d
          \<and> res_channel d' = res_channel d)"
proof -
  have s1: "fetchSearch classroom (mainQuery ''algebra'' (fallbackPlan ''algebra'')) 5 ''yt-key''
       = Reply 200 [''alg2'', ''alg1'']"
    by (simp add: mainQuery_fallback classroom_def)
  have s2: "fetchSearch classroom
         (mainQuery ''sets'' \<lparr> plan_subtasks = Some [], plan_mainSearchQuery = None \<rparr>) 5 ''yt-key''
       = Reply 200 [''alg2'', ''alg1'']"
    by (simp add: mainQuery_def orElse_def classroom_def)
  have k: "ok 200" by (simp add: ok_def)
  have j: "join [''alg2'', ''alg1''] \<noteq> []" by simp
  have f: "fetchDetails classroom (join [''alg2'', ''alg1'']) ''yt-key''
       = Reply 200 [quietItem, algebraItem]"
    by (simp add: classroom_def)
  have c: "Date_now classroom = Date_now classroom" by simp
  have ne: "[quietItem, algebraItem] \<noteq> []" by simp
  from primaryVideo_maximal_reproducible
         [OF post_not_preflight classroom_plan_algebra s1 k j f k
             post_not_preflight classroom_plan_sets s2 k j f k c ne]
  have "\<exists>primary d d'.
          primary \<in> set (map (scoreItem (Date_now classroom)) [quietItem, algebraItem])
          \<and> engagementScore (scoreItem (Date_now classroom) quietItem) \<le> engagementScore primary
          \<and> engagementScore (scoreItem (Date_now classroom) algebraItem)
              \<le> engagementScore primary
          \<and> handler classroom (post ''algebra'') = \<lparr> status = 200, body = ResultBody d \<rparr>
          \<and> res_videoId d = videoId primary
          \<and> handler classroom (post ''sets'') = \<lparr> status = 200, body = ResultBody d' \<rparr>
          \<and> res_videoId d' = res_videoId d
          \<and> res_title d' = res_title d
          \<and> res_channel d' = res_channel d"
    by (elim exE conjE) (simp, blast)
  with post_not_preflight classroom_plan_algebra classroom_plan_sets s1 s2 k j f ne
  show ?thesis by blast
qed

text \<open>
  C5. If the main search succeeds with no candidate, the response is the error
  response with status 500 and the message \<open>No videos found for this topic\<close>: there is
  no result, partial or not, in it.
\<close>

theorem no_primary_video_is_500:
  assumes "req_method req \<noteq> ''OPTIONS''"
      and "planTopic w req = Continue (topic, apiKey, p)"
      and "searchYouTube w (mainQuery topic p) apiKey 5 = Inr []"
  shows "handler w req = \<lparr> status = 500, body = ErrorBody ''No videos found for this topic'' \<rparr>"
  using assms by (simp add: handler_Continue assemble_Nil caught_def)

text \<open>C5, at the request for \<open>knots\<close>, whose main search finds nothing.\<close>

theorem no_primary_video_is_500_witness:
  "req_method (post ''knots'') \<noteq> ''OPTIONS''
   \<and> planTopic classroom (post ''knots'') = Continue (''knots'', ''yt-key'', fallbackPlan ''knots'')
   \<and> searchYouTube classroom (mainQuery ''knots'' (fallbackPlan ''knots'')) ''yt-key'' 5 = Inr []
   \<and> handler classroom (post ''knots'')
       = \<lparr> status = 500, body = ErrorBody ''No videos found for this topic'' \<rparr>"
  using no_primary_video_is_500 [OF post_not_preflight classroom_plan_knots classroom_main_knots]
    post_not_preflight classroom_plan_knots classroom_main_knots
  by simp

subsection \<open>The subtasks\<close>



text \<open>
  C9. In a success response the subtask results stand in the order of the plan: the
  result at index \<open>i\<close> has the title and the description of the plan's subtask \<open>i\<close>, and
  its videos are the candidates of that subtask's search in their order; the video at
  rank 0 has the reason \<open>Highest engagement for this topic\<close>, the video at a later
  zero-based rank \<open>j\<close> the reason \<open>Recommended video #\<close> followed by \<open>j + 1\<close>.
\<close>

theorem subtasks_in_plan_order:
  assumes "req_method req \<noteq> ''OPTIONS''"
      and "planTopic w req = Continue (topic, apiKey, p)"
      and "searchYouTube w (mainQuery topic p) apiKey 5 = Inr mainVideos"
      and "mainVideos \<noteq> []"
  shows "\<exists>d. handler w req = \<lparr> status = 200, body = ResultBody d \<rparr>
           \<and> length (res_subtasks d) = length (planSubtasks p)
           \<and> (\<forall>i < length (planSubtasks p).
                 swv_title (res_subtasks d ! i)
                   = orElse (subtask_title (planSubtasks p ! i)) (''Part '' @ digits (i + 1))
                 \<and> swv_description (res_subtasks d ! i)
                   = orElse (subtask_searchQuery (planSubtasks p ! i)) ''''
                 \<and> (\<forall>videos.
                       searchYouTube w (subtaskQuery topic (planSubtasks p ! i)) apiKey 5
                         = Inr videos
                       \<longrightarrow> length (swv_videos (res_subtasks d ! i)) = length videos
                         \<and> (\<forall>j < length videos.
                               rv_videoId (swv_videos (res_subtasks d ! i) ! j)
                                 = videoId (videos ! j)
                               \<and> rv_reason (swv_videos (res_subtasks d ! i) ! j)
                                 = (if j = 0 then ''Highest engagement for this topic''
                                    else ''Recommended video #'' @ digits (j + 1)))))"
proof -
  obtain primaryVideo others where mv: "mainVideos = primaryVideo # others"
    using assms(4) by (cases mainVideos) auto
  let ?d = "\<lparr> res_videoId = videoId primaryVideo,
               res_title = title primaryVideo,
               res_channel = channel primaryVideo,
               res_reason = ''Best educational video for '' @ [CHR 0x22] @ topic
                 @ [CHR 0x22] @ '' with '' @ viewCount primaryVideo @ '' views'',
               res_subtasks =
                 map (searchSubtask w topic apiKey) (enumerate 0 (planSubtasks p)) \<rparr>"
  have h: "handler w req = \<lparr> status = 200, body = ResultBody ?d \<rparr>"
    using assms(1,2) assemble_Cons [OF assms(3) [unfolded mv]] by (simp add: handler_Continue)
  have len: "length (res_subtasks ?d) = length (planSubtasks p)" by simp
  have each: "\<forall>i < length (planSubtasks p).
                 swv_title (res_subtasks ?d ! i)
                   = orElse (subtask_title (planSubtasks p ! i)) (''Part '' @ digits (i + 1))
                 \<and> swv_description (res_subtasks ?d ! i)
                   = orElse (subtask_searchQuery (planSubtasks p ! i)) ''''
                 \<and> (\<forall>videos.
                       searchYouTube w (subtaskQuery topic (planSubtasks p ! i)) apiKey 5
                         = Inr videos
                       \<longrightarrow> length (swv_videos (res_subtasks ?d ! i)) = length videos
                         \<and> (\<forall>j < length videos.
                               rv_videoId (swv_videos (res_subtasks ?d ! i) ! j)
                                 = videoId (videos ! j)
                               \<and> rv_reason (swv_videos (res_subtasks ?d ! i) ! j)
                                 = (if j = 0 then ''Highest engagement for this topic''
                                    else ''Recommended video #'' @ digits (j + 1))))"
    by (auto simp: nth_enumerate_eq searchSubtask_title searchSubtask_videos rankVideo_def)
  from h len each show ?thesis by blast
qed

text \<open>C9, at the request for \<open>algebra\<close>, whose first subtask has two videos.\<close>

theorem subtasks_in_plan_order_witness:
  "req_method (post ''algebra'') \<noteq> ''OPTIONS''
   \<and> planTopic classroom (post ''algebra'')
       = Continue (''algebra'', ''yt-key'', fallbackPlan ''algebra'')
   \<and> searchYouTube classroom (mainQuery ''algebra'' (fallbackPlan ''algebra'')) ''yt-key'' 5
       = Inr [algebraVideo, quietVideo]
   \<and> searchYouTube classroom
         (subtaskQuery ''algebra'' (planSubtasks (fallbackPlan ''algebra'') ! 0)) ''yt-key'' 5
       = Inr [algebraVideo, quietVideo]
   \<and> (\<exists>d. handler classroom (post ''algebra'') = \<lparr> status = 200, body = ResultBody d \<rparr>
          \<and> map swv_title (res_subtasks d)
              = [''Introduction to algebra'', ''Core concepts of algebra'', ''Practice algebra'']
          \<and> map rv_videoId (swv_videos (res_subtasks d ! 0)) = [''alg1'', ''alg2'']
          \<and> map rv_reason (swv_videos (res_subtasks d ! 0))
              = [''Highest engagement for this topic'', ''Recommended video #2''])"
proof -
  have ne: "[algebraVideo, quietVideo] \<noteq> []" by simp
  have f0: "searchYouTube classroom
         (subtaskQuery ''algebra'' (planSubtasks (fallbackPlan ''algebra'') ! 0)) ''yt-key'' 5
       = Inr [algebraVideo, quietVideo]"
    unfolding classroom_subtask_queries by (rule classroom_found) simp
  have len: "length (planSubtasks (fallbackPlan ''algebra'')) = 3"
    by (simp add: planSubtasks_fallback)
  from subtasks_in_plan_order
         [OF post_not_preflight classroom_plan_algebra classroom_main_algebra ne]
  obtain d where d: "handler classroom (post ''algebra'') = \<lparr> status = 200, body = ResultBody d \<rparr>"
    and l: "length (res_subtasks d) = length (planSubtasks (fallbackPlan ''algebra''))"
    and a: "\<forall>i < length (planSubtasks (fallbackPlan ''algebra'')).
                 swv_title (res_subtasks d ! i)
                   = orElse (subtask_title (planSubtasks (fallbackPlan ''algebra'') ! i))
                       (''Part '' @ digits (i + 1))
                 \<and> swv_description (res_subtasks d ! i)
                   = orElse (subtask_searchQuery (planSubtasks (fallbackPlan ''algebra'') ! i)) ''''
                 \<and> (\<forall>videos.
                       searchYouTube classroom
                         (subtaskQuery ''algebra'' (planSubtasks (fallbackPlan ''algebra'') ! i))
                         ''yt-key'' 5 = Inr videos
                       \<longrightarrow> length (swv_videos (res_subtasks d ! i)) = length videos
                         \<and> (\<forall>j < length videos.
                               rv_videoId (swv_videos (res_subtasks d ! i) ! j)
                                 = videoId (videos ! j)
                               \<and> rv_reason (swv_videos (res_subtasks d ! i) ! j)
                                 = (if j = 0 then ''Highest engagement for this topic''
                                    else ''Recommended video #'' @ digits (j + 1))))"
    by blast
  have t: "swv_title (res_subtasks d ! 0) = ''Introduction to algebra''"
    "swv_title (res_subtasks d ! 1) = ''Core concepts of algebra''"
    "swv_title (res_subtasks d ! 2) = ''Practice algebra''"
    using a len by (simp_all add: planSubtasks_fallback orElse_def)
  have l3: "length (res_subtasks d) = 3" using l len by simp
  have titles: "map swv_title (res_subtasks d)
              = [''Introduction to algebra'', ''Core concepts of algebra'', ''Practice algebra'']"
    using t by (simp add: map_of_length_3 [OF l3])
  have "0 < length (planSubtasks (fallbackPlan ''algebra''))" using len by simp
  with a have "\<forall>videos.
      searchYouTube classroom
        (subtaskQuery ''algebra'' (planSubtasks (fallbackPlan ''algebra'') ! 0)) ''yt-key'' 5
        = Inr videos
      \<longrightarrow> length (swv_videos (res_subtasks d ! 0)) = length videos
        \<and> (\<forall>j < length videos.
              rv_videoId (swv_videos (res_subtasks d ! 0) ! j) = videoId (videos ! j)
              \<and> rv_reason (swv_videos (res_subtasks d ! 0) ! j)
                = (if j = 0 then ''Highest engagement for this topic''
                   else ''Recommended video #'' @ digits (j + 1)))"
    by blast
  from this [rule_format, OF f0]
  have v: "length (swv_videos (res_subtasks d ! 0)) = 2
      \<and> (\<forall>j < 2. rv_videoId (swv_videos (res_subtasks d ! 0) ! j)
                    = videoId ([algebraVideo, quietVideo] ! j)
               \<and> rv_reason (swv_videos (res_subtasks d ! 0) ! j)
                    = (if j = 0 then ''Highest engagement for this topic''
                       else ''Recommended video #'' @ digits (j + 1)))"
    by simp
  then have l2: "length (swv_videos (res_subtasks d ! 0)) = 2"
    and r0: "rv_videoId (swv_videos (res_subtasks d ! 0) ! 0) = ''alg1''"
            "rv_reason (swv_videos (res_subtasks d ! 0) ! 0) = ''Highest engagement for this topic''"
    and r1: "rv_videoId (swv_videos (res_subtasks d ! 0) ! 1) = ''alg2''"
            "rv_reason (swv_videos (res_subtasks d ! 0) ! 1) = ''Recommended video #2''"
    by (simp_all add: algebraVideo_def quietVideo_def digits.simps digit_def)
  have ids: "map rv_videoId (swv_videos (res_subtasks d ! 0)) = [''alg1'', ''alg2'']"
    and reasons: "map rv_reason (swv_videos (res_subtasks d ! 0))
              = [''Highest engagement for this topic'', ''Recommended video #2'']"
    using r0 r1 by (simp_all add: map_of_length_2 [OF l2])
  show ?thesis
    using post_not_preflight classroom_plan_algebra classroom_main_algebra f0 d titles ids reasons
    by simp
qed

subsection \<open>The status of the response\<close>

text \<open>
  C6. For a request that is not a preflight, the status follows the class of the
  failure: 400 when the decoded body has no topic (absent or empty); 429 and 402 when
  the generative service answers with that status; 500 when that service answers with
  another status that is not ok, when anything throws (the message of the error is
  the \<open>error\<close> of the body), and so when the main search finds no video. There is no
  other status but 200, which is the status of the success responses and of them only;
  and the statuses 400, 429 and 402 occur in these three cases only. (A body that
  cannot be decoded is a thrown error, hence a 500.)
\<close>

theorem status_by_failure_class:
  assumes "req_method req \<noteq> ''OPTIONS''"
  shows "(\<forall>topicField. req_json req = Inr topicField \<and> truthy topicField = None
            \<longrightarrow> handler w req = \<lparr> status = 400, body = ErrorBody ''Topic is required'' \<rparr>)
       \<and> (\<forall>topic apiKey aiKey aiStatus content.
            req_json req = Inr (Some topic) \<and> topic \<noteq> ''''
            \<and> truthy (env_youtube_api_key w) = Some apiKey
            \<and> truthy (env_LOVABLE_API_KEY w) = Some aiKey
            \<and> fetchCompletion w aiKey topic = Reply aiStatus content
            \<longrightarrow> (aiStatus = 429 \<longrightarrow> handler w req =
                    \<lparr> status = 429,
                      body = ErrorBody ''Rate limit exceeded. Please try again later.'' \<rparr>)
              \<and> (aiStatus = 402 \<longrightarrow> handler w req =
                    \<lparr> status = 402, body = ErrorBody ''Payment required. Please add credits.'' \<rparr>)
              \<and> (\<not> ok aiStatus \<and> aiStatus \<noteq> 429 \<and> aiStatus \<noteq> 402 \<longrightarrow> handler w req =
                    \<lparr> status = 500, body = ErrorBody ''AI gateway error'' \<rparr>))
       \<and> (\<forall>err. planTopic w req = Throw err
            \<longrightarrow> handler w req = \<lparr> status = 500, body = ErrorBody (message err) \<rparr>)
       \<and> (\<forall>topic apiKey p err.
            planTopic w req = Continue (topic, apiKey, p) \<and> assemble w topic apiKey p = Inl err
            \<longrightarrow> handler w req = \<lparr> status = 500, body = ErrorBody (message err) \<rparr>)
       \<and> (\<forall>topic apiKey p.
            planTopic w req = Continue (topic, apiKey, p)
            \<and> searchYouTube w (mainQuery topic p) apiKey 5 = Inr []
            \<longrightarrow> handler w req =
                  \<lparr> status = 500, body = ErrorBody ''No videos found for this topic'' \<rparr>)
       \<and> status (handler w req) \<in> {200, 400, 402, 429, 500}
       \<and> (status (handler w req) = 200 \<longleftrightarrow> (\<exists>d. body (handler w req) = ResultBody d))
       \<and> (status (handler w req) \<noteq> 200 \<longrightarrow> (\<exists>m. body (handler w req) = ErrorBody m))
       \<and> (status (handler w req) = 400 \<longrightarrow>
            (\<exists>topicField. req_json req = Inr topicField \<and> truthy topicField = None))
       \<and> (status (handler w req) = 429 \<longrightarrow>
            (\<exists>topic aiKey content. req_json req = Inr (Some topic)
                \<and> truthy (env_LOVABLE_API_KEY w) = Some aiKey
                \<and> fetchCompletion w aiKey topic = Reply 429 content))
       \<and> (status (handler w req) = 402 \<longrightarrow>
            (\<exists>topic aiKey content. req_json req = Inr (Some topic)
                \<and> truthy (env_LOVABLE_API_KEY w) = Some aiKey
                \<and> fetchCompletion w aiKey topic = Reply 402 content))"
proof -
  note hc = handler_cases [OF assms, of w]
  have A: "\<forall>topicField. req_json req = Inr topicField \<and> truthy topicField = None
            \<longrightarrow> handler w req = \<lparr> status = 400, body = ErrorBody ''Topic is required'' \<rparr>"
    using assms by (simp add: handler_def planTopic_def)
  have B: "\<forall>topic apiKey aiKey aiStatus content.
            req_json req = Inr (Some topic) \<and> topic \<noteq> ''''
            \<and> truthy (env_youtube_api_key w) = Some apiKey
            \<and> truthy (env_LOVABLE_API_KEY w) = Some aiKey
            \<and> fetchCompletion w aiKey topic = Reply aiStatus content
            \<longrightarrow> (aiStatus = 429 \<longrightarrow> handler w req =
                    \<lparr> status = 429,
                      body = ErrorBody ''Rate limit exceeded. Please try again later.'' \<rparr>)
              \<and> (aiStatus = 402 \<longrightarrow> handler w req =
                    \<lparr> status = 402, body = ErrorBody ''Payment required. Please add credits.'' \<rparr>)
              \<and> (\<not> ok aiStatus \<and> aiStatus \<noteq> 429 \<and> aiStatus \<noteq> 402 \<longrightarrow> handler w req =
                    \<lparr> status = 500, body = ErrorBody ''AI gateway error'' \<rparr>)"
    using assms by (simp add: handler_def planTopic_def truthy_def ok_def caught_def)
  have C: "\<forall>err. planTopic w req = Throw err
            \<longrightarrow> handler w req = \<lparr> status = 500, body = ErrorBody (message err) \<rparr>"
    using assms by (simp add: handler_def caught_def)
  have D: "\<forall>topic apiKey p err.
            planTopic w req = Continue (topic, apiKey, p) \<and> assemble w topic apiKey p = Inl err
            \<longrightarrow> handler w req = \<lparr> status = 500, body = ErrorBody (message err) \<rparr>"
    using assms by (simp add: handler_def caught_def)
  have E: "\<forall>topic apiKey p.
            planTopic w req = Continue (topic, apiKey, p)
            \<and> searchYouTube w (mainQuery topic p) apiKey 5 = Inr []
            \<longrightarrow> handler w req =
                  \<lparr> status = 500, body = ErrorBody ''No videos found for this topic'' \<rparr>"
    using assms by (simp add: handler_def caught_def assemble_def)
  have F: "status (handler w req) \<in> {200, 400, 402, 429, 500}"
    using hc planTopic_Return_status [of w req "handler w req"]
      assemble_Inr_status [of w _ _ _ "handler w req"]
    by (elim disjE exE conjE) auto
  have G: "status (handler w req) = 200 \<longleftrightarrow> (\<exists>d. body (handler w req) = ResultBody d)"
    using hc planTopic_Return_status [of w req "handler w req"]
      planTopic_Return_body [of w req "handler w req"]
      assemble_Inr_status [of w _ _ _ "handler w req"]
    by (elim disjE exE conjE) auto
  have H: "status (handler w req) \<noteq> 200 \<longrightarrow> (\<exists>m. body (handler w req) = ErrorBody m)"
    using hc planTopic_Return_body [of w req "handler w req"]
      assemble_Inr_status [of w _ _ _ "handler w req"]
    by (elim disjE exE conjE) auto
  have I: "status (handler w req) = 400 \<longrightarrow>
            (\<exists>topicField. req_json req = Inr topicField \<and> truthy topicField = None)"
    using hc planTopic_Return_cases [of w req "handler w req"]
      assemble_Inr_status [of w _ _ _ "handler w req"]
    by (elim disjE exE conjE) auto
  have J: "status (handler w req) = 429 \<longrightarrow>
            (\<exists>topic aiKey content. req_json req = Inr (Some topic)
                \<and> truthy (env_LOVABLE_API_KEY w) = Some aiKey
                \<and> fetchCompletion w aiKey topic = Reply 429 content)"
    using hc planTopic_Return_cases [of w req "handler w req"]
      assemble_Inr_status [of w _ _ _ "handler w req"]
    by (elim disjE exE conjE) auto
  have K: "status (handler w req) = 402 \<longrightarrow>
            (\<exists>topic aiKey content. req_json req = Inr (Some topic)
                \<and> truthy (env_LOVABLE_API_KEY w) = Some aiKey
                \<and> fetchCompletion w aiKey topic = Reply 402 content)"
    using hc planTopic_Return_cases [of w req "handler w req"]
      assemble_Inr_status [of w _ _ _ "handler w req"]
    by (elim disjE exE conjE) auto
  from A B C D E F G H I J K show ?thesis by blast
qed

text \<open>
  C6, in the world \<open>classroom\<close>: the empty topic (400), the topics answered with the
  statuses 429, 402 and 503, a topic for which the call of the service is rejected,
  the topic whose main search finds nothing, and the topic that succeeds.
\<close>

theorem status_by_failure_class_witness:
  "req_method (post ''busy'') \<noteq> ''OPTIONS''
   \<and> handler classroom (post []) = \<lparr> status = 400, body = ErrorBody ''Topic is required'' \<rparr>
   \<and> handler classroom (post ''busy'')
       = \<lparr> status = 429, body = ErrorBody ''Rate limit exceeded. Please try again later.'' \<rparr>
   \<and> handler classroom (post ''unpaid'')
       = \<lparr> status = 402, body = ErrorBody ''Payment required. Please add credits.'' \<rparr>
   \<and> handler classroom (post ''outage'')
       = \<lparr> status = 500, body = ErrorBody ''AI gateway error'' \<rparr>
   \<and> handler classroom (post ''offline'')
       = \<lparr> status = 500, body = ErrorBody ''error sending request'' \<rparr>
   \<and> handler classroom (post ''knots'')
       = \<lparr> status = 500, body = ErrorBody ''No videos found for this topic'' \<rparr>
   \<and> status (handler classroom (post ''algebra'')) = 200"
proof -
  note T = status_by_failure_class [OF post_not_preflight, of _ classroom]
  note T400 = T [THEN conjunct1, rule_format]
  note TAI = T [THEN conjunct2, THEN conjunct1, rule_format]
  note TThrow = T [THEN conjunct2, THEN conjunct2, THEN conjunct1, rule_format]
  note TNone = T [THEN conjunct2, THEN conjunct2, THEN conjunct2, THEN conjunct2,
      THEN conjunct1, rule_format]
  note T200 = T [THEN conjunct2, THEN conjunct2, THEN conjunct2, THEN conjunct2,
      THEN conjunct2, THEN conjunct2, THEN conjunct1]
  have y: "truthy (env_youtube_api_key classroom) = Some ''yt-key''"
    and a: "truthy (env_LOVABLE_API_KEY classroom) = Some ''ai-key''"
    by (simp_all add: truthy_def classroom_def)
  have e: "req_json (post []) = Inr (Some []) \<and> truthy (Some []) = None"
    by (simp add: post_def truthy_def)
  have r400: "handler classroom (post [])
      = \<lparr> status = 400, body = ErrorBody ''Topic is required'' \<rparr>"
    by (rule T400 [OF e])
  have b: "req_json (post ''busy'') = Inr (Some ''busy'') \<and> ''busy'' \<noteq> []
      \<and> truthy (env_youtube_api_key classroom) = Some ''yt-key''
      \<and> truthy (env_LOVABLE_API_KEY classroom) = Some ''ai-key''
      \<and> fetchCompletion classroom ''ai-key'' ''busy'' = Reply 429 None"
    using y a by (simp add: post_def classroom_def)
  have r429: "handler classroom (post ''busy'')
       = \<lparr> status = 429, body = ErrorBody ''Rate limit exceeded. Please try again later.'' \<rparr>"
    by (rule TAI [OF b, THEN conjunct1, rule_format, OF refl])
  have u: "req_json (post ''unpaid'') = Inr (Some ''unpaid'') \<and> ''unpaid'' \<noteq> []
      \<and> truthy (env_youtube_api_key classroom) = Some ''yt-key''
      \<and> truthy (env_LOVABLE_API_KEY classroom) = Some ''ai-key''
      \<and> fetchCompletion classroom ''ai-key'' ''unpaid'' = Reply 402 None"
    using y a by (simp add: post_def classroom_def)
  have r402: "handler classroom (post ''unpaid'')
       = \<lparr> status = 402, body = ErrorBody ''Payment required. Please add credits.'' \<rparr>"
    by (rule TAI [OF u, THEN conjunct2, THEN conjunct1, rule_format, OF refl])
  have o: "req_json (post ''outage'') = Inr (Some ''outage'') \<and> ''outage'' \<noteq> []
      \<and> truthy (env_youtube_api_key classroom) = Some ''yt-key''
      \<and> truthy (env_LOVABLE_API_KEY classroom) = Some ''ai-key''
      \<and> fetchCompletion classroom ''ai-key'' ''outage'' = Reply 503 None"
    using y a by (simp add: post_def classroom_def)
  have n503: "\<not> ok 503 \<and> (503 :: nat) \<noteq> 429 \<and> (503 :: nat) \<noteq> 402" by (simp add: ok_def)
  have r503: "handler classroom (post ''outage'')
       = \<lparr> status = 500, body = ErrorBody ''AI gateway error'' \<rparr>"
    by (rule TAI [OF o, THEN conjunct2, THEN conjunct2, rule_format, OF n503])
  have t: "planTopic classroom (post ''offline'') = Throw (Error ''error sending request'')"
    by (simp add: planTopic_def post_def classroom_def truthy_def)
  have rthrow: "handler classroom (post ''offline'')
       = \<lparr> status = 500, body = ErrorBody ''error sending request'' \<rparr>"
    using TThrow [OF t] by simp
  have rknots: "handler classroom (post ''knots'')
       = \<lparr> status = 500, body = ErrorBody ''No videos found for this topic'' \<rparr>"
    by (rule TNone [OF conjI [OF classroom_plan_knots classroom_main_knots]])
  have "\<exists>d. body (handler classroom (post ''algebra'')) = ResultBody d"
    by (simp add: classroom_algebra_response)
  then have r200: "status (handler classroom (post ''algebra'')) = 200"
    by (simp only: T200)
  from post_not_preflight r400 r429 r402 r503 rthrow rknots r200 show ?thesis
    by (intro conjI)
qed

subsection \<open>The view counts of the response\<close>

text \<open>
  C10. In a success response, the reason of the primary video and the \<open>views\<close> of every
  subtask video carry \<open>formatViewCount\<close> of the view count of a detail item, not the
  number. \<open>formatViewCount\<close> prints a count of at least 1000000 as the quotient by
  1000000 with one decimal and the letter M, a count from 1000 on as the quotient by
  1000 with one decimal and the letter K, and a smaller count in decimal digits. The
  quotient is the binary64 one; the tenth printed is a tenth nearest to it, and for a
  count below \<open>10\<^sup>1\<^sup>4\<close> also a tenth nearest to the exact quotient.
\<close>

theorem views_are_formatted:
  assumes "handler w req = \<lparr> status = 200, body = ResultBody d \<rparr>"
  shows "(\<exists>topic apiKey ids st items it.
            req_json req = Inr (Some topic)
            \<and> fetchDetails w ids apiKey = Reply st items \<and> it \<in> set items
            \<and> res_videoId d = item_id it
            \<and> res_reason d = ''Best educational video for '' @ [CHR 0x22] @ topic @ [CHR 0x22]
                 @ '' with '' @ formatViewCount (statistics_viewCount it) @ '' views'')
       \<and> (\<forall>sw \<in> set (res_subtasks d). \<forall>v \<in> set (swv_videos sw).
             \<exists>apiKey ids st items it.
               fetchDetails w ids apiKey = Reply st items \<and> it \<in> set items
               \<and> rv_videoId v = item_id it
               \<and> rv_views v = formatViewCount (statistics_viewCount it))
       \<and> (\<forall>count \<ge> 1000000. \<exists>n :: nat.
             \<bar>binary64 (of_int count / 1000000) - (of_nat n :: rat) / 10\<bar> \<le> 1 / 20
             \<and> (count < 100000000000000
                  \<longrightarrow> \<bar>of_int count / 1000000 - (of_nat n :: rat) / 10\<bar> \<le> 1 / 20)
             \<and> formatViewCount count = digits (n div 10) @ ''.'' @ [digit (n mod 10)] @ ''M'')
       \<and> (\<forall>count. 1000 \<le> count \<and> count < 1000000 \<longrightarrow> (\<exists>n :: nat.
             \<bar>binary64 (of_int count / 1000) - (of_nat n :: rat) / 10\<bar> \<le> 1 / 20
             \<and> \<bar>of_int count / 1000 - (of_nat n :: rat) / 10\<bar> \<le> 1 / 20
             \<and> formatViewCount count = digits (n div 10) @ ''.'' @ [digit (n mod 10)] @ ''K''))
       \<and> (\<forall>count. 0 \<le> count \<and> count < 1000 \<longrightarrow> formatViewCount count = digits (nat count))
       \<and> (\<forall>x. 1 \<le> x \<longrightarrow> \<bar>binary64 x - x\<bar> \<le> x / 2 ^ 53)"
proof (intro conjI)
  have b: "body (handler w req) = ResultBody d" using assms by simp
  from handler_ResultBody [OF b] obtain topic apiKey p where
    pt: "planTopic w req = Continue (topic, apiKey, p)"
    and as: "assemble w topic apiKey p = Inr (handler w req)" by blast
  from assemble_Inr [OF as] obtain primaryVideo others where
    m: "searchYouTube w (mainQuery topic p) apiKey 5 = Inr (primaryVideo # others)" by blast
  have d: "d = \<lparr> res_videoId = videoId primaryVideo,
               res_title = title primaryVideo,
               res_channel = channel primaryVideo,
               res_reason = ''Best educational video for '' @ [CHR 0x22] @ topic
                 @ [CHR 0x22] @ '' with '' @ viewCount primaryVideo @ '' views'',
               res_subtasks =
                 map (searchSubtask w topic apiKey) (enumerate 0 (planSubtasks p)) \<rparr>"
    using assemble_Cons [OF m] as assms by simp
  have tp: "req_json req = Inr (Some topic)"
    by (rule planTopic_Continue_topic [OF pt])
  from searchYouTube_from_items [OF m, of primaryVideo] obtain ids st items it where
    f: "fetchDetails w ids apiKey = Reply st items" "it \<in> set items"
    and pv: "primaryVideo = scoreItem (Date_now w) it" by auto
  have "res_videoId d = item_id it"
    and "res_reason d = ''Best educational video for '' @ [CHR 0x22] @ topic @ [CHR 0x22]
                 @ '' with '' @ formatViewCount (statistics_viewCount it) @ '' views''"
    using d pv by (simp_all add: scoreItem_def)
  with f tp show "\<exists>topic apiKey ids st items it.
            req_json req = Inr (Some topic)
            \<and> fetchDetails w ids apiKey = Reply st items \<and> it \<in> set items
            \<and> res_videoId d = item_id it
            \<and> res_reason d = ''Best educational video for '' @ [CHR 0x22] @ topic @ [CHR 0x22]
                 @ '' with '' @ formatViewCount (statistics_viewCount it) @ '' views''"
    by blast
  show "\<forall>sw \<in> set (res_subtasks d). \<forall>v \<in> set (swv_videos sw).
             \<exists>apiKey ids st items it.
               fetchDetails w ids apiKey = Reply st items \<and> it \<in> set items
               \<and> rv_videoId v = item_id it
               \<and> rv_views v = formatViewCount (statistics_viewCount it)"
  proof (intro ballI)
    fix sw v assume sw: "sw \<in> set (res_subtasks d)" and v: "v \<in> set (swv_videos sw)"
    from sw d obtain idx st where sw_eq: "sw = searchSubtask w topic apiKey (idx, st)"
      by auto
    from v sw_eq have "\<exists>videos. searchYouTube w (subtaskQuery topic st) apiKey 5 = Inr videos
        \<and> v \<in> set (map rankVideo (enumerate 0 videos))"
      by (cases "searchYouTube w (subtaskQuery topic st) apiKey 5")
         (simp_all add: searchSubtask_videos)
    then obtain videos where
      vs: "searchYouTube w (subtaskQuery topic st) apiKey 5 = Inr videos"
      and vin: "v \<in> set (map rankVideo (enumerate 0 videos))"
      by blast
    from vin obtain j yv where jyv: "(j, yv) \<in> set (enumerate 0 videos)"
      and vr: "v = rankVideo (j, yv)"
      by auto
    have "yv \<in> set videos" using jyv by (auto simp: in_set_enumerate_eq)
    from searchYouTube_from_items [OF vs this] obtain ids st' items it where
      f: "fetchDetails w ids apiKey = Reply st' items" "it \<in> set items"
      and yv: "yv = scoreItem (Date_now w) it" by auto
    have "rv_videoId v = item_id it"
      and "rv_views v = formatViewCount (statistics_viewCount it)"
      using vr yv by (simp_all add: rankVideo_def scoreItem_def)
    with f show "\<exists>apiKey ids st items it.
               fetchDetails w ids apiKey = Reply st items \<and> it \<in> set items
               \<and> rv_videoId v = item_id it
               \<and> rv_views v = formatViewCount (statistics_viewCount it)"
      by blast
  qed
  show "\<forall>count \<ge> 1000000. \<exists>n :: nat.
             \<bar>binary64 (of_int count / 1000000) - (of_nat n :: rat) / 10\<bar> \<le> 1 / 20
             \<and> (count < 100000000000000
                  \<longrightarrow> \<bar>of_int count / 1000000 - (of_nat n :: rat) / 10\<bar> \<le> 1 / 20)
             \<and> formatViewCount count = digits (n div 10) @ ''.'' @ [digit (n mod 10)] @ ''M''"
  proof (intro allI impI)
    fix count :: int assume c: "1000000 \<le> count"
    from toFixed1_quotient [of 1000000 count] c
    show "\<exists>n :: nat.
             \<bar>binary64 (of_int count / 1000000) - (of_nat n :: rat) / 10\<bar> \<le> 1 / 20
             \<and> (count < 100000000000000
                  \<longrightarrow> \<bar>of_int count / 1000000 - (of_nat n :: rat) / 10\<bar> \<le> 1 / 20)
             \<and> formatViewCount count = digits (n div 10) @ ''.'' @ [digit (n mod 10)] @ ''M''"
      by (auto simp: formatViewCount_def)
  qed
  show "\<forall>count. 1000 \<le> count \<and> count < 1000000 \<longrightarrow> (\<exists>n :: nat.
             \<bar>binary64 (of_int count / 1000) - (of_nat n :: rat) / 10\<bar> \<le> 1 / 20
             \<and> \<bar>of_int count / 1000 - (of_nat n :: rat) / 10\<bar> \<le> 1 / 20
             \<and> formatViewCount count = digits (n div 10) @ ''.'' @ [digit (n mod 10)] @ ''K'')"
  proof (intro allI impI)
    fix count :: int assume c: "1000 \<le> count \<and> count < 1000000"
    from toFixed1_quotient [of 1000 count] c
    show "\<exists>n :: nat.
             \<bar>binary64 (of_int count / 1000) - (of_nat n :: rat) / 10\<bar> \<le> 1 / 20
             \<and> \<bar>of_int count / 1000 - (of_nat n :: rat) / 10\<bar> \<le> 1 / 20
             \<and> formatViewCount count = digits (n div 10) @ ''.'' @ [digit (n mod 10)] @ ''K''"
      by (auto simp: formatViewCount_def)
  qed
  show "\<forall>count. 0 \<le> count \<and> count < 1000 \<longrightarrow> formatViewCount count = digits (nat count)"
    by (simp add: formatViewCount_def toString_def)
  show "\<forall>x. 1 \<le> x \<longrightarrow> \<bar>binary64 x - x\<bar> \<le> x / 2 ^ 53"
    using binary64_error by blast
qed

text \<open>
  C10, at the response for \<open>algebra\<close> in the world \<open>classroom\<close> and at the counts
  1234500, 45300 and 999.
\<close>

theorem views_are_formatted_witness:
  "handler classroom (post ''algebra'') = \<lparr> status = 200, body = ResultBody algebraResult \<rparr>
   \<and> (\<exists>n :: nat. \<bar>of_int 1234500 / 1000000 - (of_nat n :: rat) / 10\<bar> \<le> 1 / 20
          \<and> formatViewCount 1234500 = digits (n div 10) @ ''.'' @ [digit (n mod 10)] @ ''M'')
   \<and> (\<exists>n :: nat. \<bar>of_int 45300 / 1000 - (of_nat n :: rat) / 10\<bar> \<le> 1 / 20
          \<and> formatViewCount 45300 = digits (n div 10) @ ''.'' @ [digit (n mod 10)] @ ''K'')
   \<and> formatViewCount 999 = digits (nat 999)
   \<and> formatViewCount 1234500 = ''1.2M''
   \<and> formatViewCount 45300 = ''45.3K''
   \<and> formatViewCount 999 = ''999''
   \<and> res_reason algebraResult = ''Best educational video for '' @ [CHR 0x22] @ ''algebra''
        @ [CHR 0x22] @ '' with '' @ formatViewCount (statistics_viewCount algebraItem) @ '' views''
   \<and> map rv_views (swv_videos (res_subtasks algebraResult ! 0))
        = [formatViewCount (statistics_viewCount algebraItem),
           formatViewCount (statistics_viewCount quietItem)]"
proof -
  note T = views_are_formatted [OF classroom_algebra_response]
  from T have M: "\<forall>count \<ge> 1000000. \<exists>n :: nat.
             \<bar>binary64 (of_int count / 1000000) - (of_nat n :: rat) / 10\<bar> \<le> 1 / 20
             \<and> (count < 100000000000000
                  \<longrightarrow> \<bar>of_int count / 1000000 - (of_nat n :: rat) / 10\<bar> \<le> 1 / 20)
             \<and> formatViewCount count = digits (n div 10) @ ''.'' @ [digit (n mod 10)] @ ''M''"
    by blast
  from T have K: "\<forall>count. 1000 \<le> count \<and> count < 1000000 \<longrightarrow> (\<exists>n :: nat.
             \<bar>binary64 (of_int count / 1000) - (of_nat n :: rat) / 10\<bar> \<le> 1 / 20
             \<and> \<bar>of_int count / 1000 - (of_nat n :: rat) / 10\<bar> \<le> 1 / 20
             \<and> formatViewCount count = digits (n div 10) @ ''.'' @ [digit (n mod 10)] @ ''K'')"
    by blast
  from T have S: "\<forall>count. 0 \<le> count \<and> count < 1000
      \<longrightarrow> formatViewCount count = digits (nat count)"
    by blast
  have m: "\<exists>n :: nat. \<bar>of_int 1234500 / 1000000 - (of_nat n :: rat) / 10\<bar> \<le> 1 / 20
          \<and> formatViewCount 1234500 = digits (n div 10) @ ''.'' @ [digit (n mod 10)] @ ''M''"
  proof -
    have "(1000000 :: int) \<le> 1234500" by simp
    from M [rule_format, OF this] obtain n :: nat where
      "(1234500 < (100000000000000 :: int)
          \<longrightarrow> \<bar>of_int 1234500 / 1000000 - (of_nat n :: rat) / 10\<bar> \<le> 1 / 20)"
      and "formatViewCount 1234500 = digits (n div 10) @ ''.'' @ [digit (n mod 10)] @ ''M''"
      by blast
    then show ?thesis by auto
  qed
  have k: "\<exists>n :: nat. \<bar>of_int 45300 / 1000 - (of_nat n :: rat) / 10\<bar> \<le> 1 / 20
          \<and> formatViewCount 45300 = digits (n div 10) @ ''.'' @ [digit (n mod 10)] @ ''K''"
  proof -
    have "(1000 :: int) \<le> 45300 \<and> (45300 :: int) < 1000000" by simp
    from K [rule_format, OF this] show ?thesis by blast
  qed
  have s: "formatViewCount 999 = digits (nat 999)"
  proof -
    have "(0 :: int) \<le> 999 \<and> (999 :: int) < 1000" by simp
    from S [rule_format, OF this] show ?thesis .
  qed
  have r: "res_reason algebraResult = ''Best educational video for '' @ [CHR 0x22] @ ''algebra''
        @ [CHR 0x22] @ '' with '' @ formatViewCount (statistics_viewCount algebraItem) @ '' views''"
    by (simp add: algebraResult_def algebraItem_def format_examples)
  have v: "map rv_views (swv_videos (res_subtasks algebraResult ! 0))
        = [formatViewCount (statistics_viewCount algebraItem),
           formatViewCount (statistics_viewCount quietItem)]"
    by (simp add: algebraResult_def algebraItem_def quietItem_def format_examples)
  from classroom_algebra_response m k s format_examples r v show ?thesis
    by (intro conjI)
qed

end
